theory Spec2Isabelle
  imports Complex_Main
begin

section \<open>FillBot: the semantic form filler of theBot.py\<close>

text \<open>
  The program is one Python class, \<open>SemanticFormFiller\<close>. It holds a profile (a JSON
  object of field names and answers), an embedding of every field name, and drives a
  browser through Selenium. Two collaborators are outside the repository and stay
  abstract here:
  \<^item> the sentence-embedding model: \<open>encode\<close> maps a text to a vector of some type
    \<open>'v\<close>, and \<open>pytorch_cos_sim\<close> maps two vectors to a score. The score is a Python
    float; it is modelled as a real number, and the literals \<open>0.5\<close> and \<open>0.7\<close> as the
    rationals they denote;
  \<^item> the browser: every element answers each Selenium call either with a value or
    with an exception. The answers of the page are taken to be fixed for the length of
    one call of the program (no other actor changes the page meanwhile).

  The profile is a JSON object whose values are taken to be strings, as the program uses
  them. A Python string is modelled by the list of its bytes in UTF-8: equality and the
  substring test are the same on both. What Python's and Selenium's libraries do is
  written out where it is simple and the same everywhere (ASCII texts, dates of four-digit
  years); the rest is a parameter, the \<open>runtime\<close> below, so that every statement holds
  whatever the libraries do there. Waiting (\<open>time.sleep\<close>) is not modelled.
\<close>

subsection \<open>Exceptions and effects\<close>

text \<open>
  What the browser can raise: \<open>NoSuchElementException\<close>, or some other Selenium
  error (stale element, element not interactable, script error, ...), for which
  \<open>WebDriverException\<close> stands. Each comes with its message.
\<close>

datatype selenium_exception = NoSuchElementException | WebDriverException

type_synonym wd_error = "selenium_exception \<times> string"

text \<open>
  The exceptions of the program: those of the browser, and the two that Python's own
  operations raise here (\<open>ValueError\<close> from \<open>max\<close> and \<open>strptime\<close>, \<open>KeyError\<close> from a
  dict lookup, \<open>EOFError\<close> from \<open>input\<close>). All are subclasses of \<open>Exception\<close>, so \<open>except Exception\<close> and a bare
  \<open>except\<close> catch each of them.
\<close>

datatype exn =
  SeleniumError selenium_exception string | ValueError string | KeyError string | EOFError string

fun msg :: "exn \<Rightarrow> string" where
  "msg (SeleniumError c m) = m"
| "msg (ValueError m) = m"
| "msg (KeyError m) = m"
| "msg (EOFError m) = m"

fun is_NoSuchElementException :: "exn \<Rightarrow> bool" where
  "is_NoSuchElementException (SeleniumError c m) = (c = NoSuchElementException)"
| "is_NoSuchElementException _ = False"

text \<open>The date part of a \<open>datetime\<close> object (the time of day is not used).\<close>

datatype date = Date (year: nat) (month: nat) (day: nat)

text \<open>
  The libraries where they are not written out:
  \<^item> \<open>str_lower\<close> and \<open>str_strip\<close>: \<open>str.lower\<close> and \<open>str.strip\<close> on a text that is not
    ASCII (Unicode case mapping and Unicode white space);
  \<^item> \<open>strptime_other\<close>: \<open>datetime.strptime(s, "%m/%d/%Y")\<close> on a text that is not ASCII
    (the digits of the format match any Unicode decimal digit);
  \<^item> \<open>strptime_message\<close>: the message of the \<open>ValueError\<close> that \<open>strptime\<close> raises;
  \<^item> \<open>strftime_year_below_1000\<close>: what \<open>%Y\<close> writes for a year below 1000 (with or
    without leading zeros, by the platform's C library);
  \<^item> \<open>str_repr\<close>: \<open>repr\<close> of a string, the message of a \<open>KeyError\<close>;
  \<^item> \<open>no_such_element_message\<close>: the message of the exception that \<open>find_element\<close>
    raises when the selector finds nothing;
  \<^item> \<open>input_answer\<close>: what \<open>input()\<close> does at the console, the line read or the
    exception raised.
\<close>

record runtime =
  str_lower :: "string \<Rightarrow> string"
  str_strip :: "string \<Rightarrow> string"
  strptime_other :: "string \<Rightarrow> exn + date"
  strptime_message :: "string \<Rightarrow> string"
  strftime_year_below_1000 :: "nat \<Rightarrow> string"
  str_repr :: "string \<Rightarrow> string"
  no_such_element_message :: "string \<Rightarrow> string"
  input_answer :: "exn + string"

text \<open>
  A web element as the program sees it: what each call on it answers. \<open>None\<close> in a
  \<open>wd_error option\<close> means that the call returns normally.
\<close>

datatype element = Element
  (text_of: "wd_error + string")
  (on_click: "wd_error option")
  (on_clear: "wd_error option")
  (on_send_keys: "string \<Rightarrow> wd_error option")
  (on_find_elements: "string \<Rightarrow> wd_error + element list")

text \<open>
  The driver: \<open>page\<close> answers the searches made on the driver itself, and
  \<open>on_execute_script\<close> says how \<open>execute_script(script, element, *args)\<close> ends.
\<close>

record driver =
  page :: element
  on_execute_script :: "string \<Rightarrow> element \<Rightarrow> string list \<Rightarrow> wd_error option"

text \<open>What a run does to the outside world, in order: browser commands that took
  effect, and lines printed.\<close>

datatype event =
    Click element
  | Clear element
  | SendKeys element string
  | ExecuteScript string element "string list"
  | Print string

text \<open>A computation ends with a value or a raised exception, and has emitted events.\<close>

type_synonym 'a io = "(exn + 'a) \<times> event list"

definition ret :: "'a \<Rightarrow> 'a io" where
  "ret x = (Inr x, [])"

definition throw :: "exn \<Rightarrow> 'a io" where
  "throw e = (Inl e, [])"

definition emit :: "event \<Rightarrow> unit io" where
  "emit ev = (Inr (), [ev])"

definition lift :: "exn + 'a \<Rightarrow> 'a io" where
  "lift r = (r, [])"

text \<open>Sequencing: the second part runs only when the first returned; the events of
  the first part stay whatever happens next.\<close>

definition seq :: "'a io \<Rightarrow> ('a \<Rightarrow> 'b io) \<Rightarrow> 'b io" where
  "seq m f =
     (case m of
        (Inl e, t) \<Rightarrow> (Inl e, t)
      | (Inr x, t) \<Rightarrow> (case f x of (r, t') \<Rightarrow> (r, t @ t')))"

text \<open>\<open>try: m except <any> as e: h e\<close>. A handler that is selective re-raises what it
  does not catch.\<close>

definition try_except :: "'a io \<Rightarrow> (exn \<Rightarrow> 'a io) \<Rightarrow> 'a io" where
  "try_except m h =
     (case m of
        (Inl e, t) \<Rightarrow> (case h e of (r, t') \<Rightarrow> (r, t @ t'))
      | (Inr x, t) \<Rightarrow> (Inr x, t))"

definition print :: "string \<Rightarrow> unit io" where
  "print s = emit (Print s)"

text \<open>The recursive calls of a loop stand under \<open>seq\<close> and \<open>try_except\<close>; these
  rules tell the function package when they are reached.\<close>

lemma seq_cong [fundef_cong]:
  assumes "m = m'" and "\<And>x t. m' = (Inr x, t) \<Longrightarrow> f x = f' x"
  shows "seq m f = seq m' f'"
  using assms by (auto simp: seq_def split: prod.splits sum.splits)

lemma try_except_cong [fundef_cong]:
  assumes "m = m'" and "\<And>e t. m' = (Inl e, t) \<Longrightarrow> h e = h' e"
  shows "try_except m h = try_except m' h'"
  using assms by (auto simp: try_except_def split: prod.splits sum.splits)

subsection \<open>Selenium calls\<close>

definition selenium :: "wd_error \<Rightarrow> exn" where
  "selenium err = SeleniumError (fst err) (snd err)"

definition call :: "event \<Rightarrow> wd_error option \<Rightarrow> unit io" where
  "call ev answer = (case answer of None \<Rightarrow> emit ev | Some err \<Rightarrow> throw (selenium err))"

definition get_text :: "element \<Rightarrow> string io" where
  "get_text el = (case text_of el of Inl err \<Rightarrow> throw (selenium err) | Inr s \<Rightarrow> ret s)"

definition click :: "element \<Rightarrow> unit io" where
  "click el = call (Click el) (on_click el)"

definition clear :: "element \<Rightarrow> unit io" where
  "clear el = call (Clear el) (on_clear el)"

definition send_keys :: "element \<Rightarrow> string \<Rightarrow> unit io" where
  "send_keys el keys = call (SendKeys el keys) (on_send_keys el keys)"

definition find_elements :: "element \<Rightarrow> string \<Rightarrow> element list io" where
  "find_elements el xpath =
     (case on_find_elements el xpath of Inl err \<Rightarrow> throw (selenium err) | Inr found \<Rightarrow> ret found)"

text \<open>\<open>find_element\<close> answers the first element that \<open>find_elements\<close> would list, and
  raises \<open>NoSuchElementException\<close>, with Selenium's message, when there is none.\<close>

definition find_element :: "runtime \<Rightarrow> element \<Rightarrow> string \<Rightarrow> element io" where
  "find_element rt el xpath =
     (case on_find_elements el xpath of
        Inl err \<Rightarrow> throw (selenium err)
      | Inr [] \<Rightarrow> throw (SeleniumError NoSuchElementException (no_such_element_message rt xpath))
      | Inr (x # _) \<Rightarrow> ret x)"

definition execute_script :: "driver \<Rightarrow> string \<Rightarrow> element \<Rightarrow> string list \<Rightarrow> unit io" where
  "execute_script drv script el args =
     call (ExecuteScript script el args) (on_execute_script drv script el args)"

subsection \<open>Python built-ins used by the program\<close>

text \<open>\<open>max(items, key=...)\<close>: the first item whose key is greatest (a later item
  replaces the current one only when its key is strictly greater); \<open>ValueError\<close> on an
  empty sequence.\<close>

fun max_from :: "('a \<Rightarrow> real) \<Rightarrow> 'a \<Rightarrow> 'a list \<Rightarrow> 'a" where
  "max_from key m [] = m"
| "max_from key m (x # xs) = max_from key (if key x > key m then x else m) xs"

definition py_max :: "('a \<Rightarrow> real) \<Rightarrow> 'a list \<Rightarrow> exn + 'a" where
  "py_max key xs =
     (case xs of
        [] \<Rightarrow> Inl (ValueError ''max() arg is an empty sequence'')
      | x # rest \<Rightarrow> Inr (max_from key x rest))"

text \<open>\<open>d[k]\<close> on a dict.\<close>

definition py_getitem :: "runtime \<Rightarrow> (string \<times> 'a) list \<Rightarrow> string \<Rightarrow> exn + 'a" where
  "py_getitem rt d k =
     (case map_of d k of None \<Rightarrow> Inl (KeyError (str_repr rt k)) | Some v \<Rightarrow> Inr v)"

text \<open>A text is ASCII when no byte of it has the top bit set.\<close>

definition is_ascii :: "string \<Rightarrow> bool" where
  "is_ascii s = list_all (\<lambda>c. \<not> digit7 c) s"

text \<open>\<open>str.lower\<close> and \<open>str.strip\<close>: on an ASCII text, the letters \<open>A\<close> to \<open>Z\<close> are
  mapped, and the ASCII white space of \<open>str.isspace\<close> is stripped; on any other text
  the runtime says. The substring test \<open>a in b\<close>.\<close>

definition lower_char :: "char \<Rightarrow> char" where
  "lower_char c =
     (case map_of (zip ''ABCDEFGHIJKLMNOPQRSTUVWXYZ'' ''abcdefghijklmnopqrstuvwxyz'') c of
        Some l \<Rightarrow> l
      | None \<Rightarrow> c)"

definition lower :: "runtime \<Rightarrow> string \<Rightarrow> string" where
  "lower rt s = (if is_ascii s then map lower_char s else str_lower rt s)"

definition is_space :: "char \<Rightarrow> bool" where
  "is_space c =
     (c \<in> set [CHR '' '', CHR 0x09, CHR 0x0A, CHR 0x0B, CHR 0x0C, CHR 0x0D,
                CHR 0x1C, CHR 0x1D, CHR 0x1E, CHR 0x1F])"

definition strip :: "runtime \<Rightarrow> string \<Rightarrow> string" where
  "strip rt s =
     (if is_ascii s then rev (dropWhile is_space (rev (dropWhile is_space s)))
      else str_strip rt s)"

fun py_in :: "string \<Rightarrow> string \<Rightarrow> bool" where
  "py_in a [] = (a = [])"
| "py_in a (c # cs) = (take (length a) (c # cs) = a \<or> py_in a cs)"

text \<open>\<open>str(n)\<close> for a natural number, and \<open>s.zfill(width)\<close> for a string without
  sign.\<close>

definition digit_char :: "nat \<Rightarrow> char" where
  "digit_char n = ''0123456789'' ! n"

fun str_nat :: "nat \<Rightarrow> string" where
  "str_nat n = (if n < 10 then [digit_char n] else str_nat (n div 10) @ [digit_char (n mod 10)])"

declare str_nat.simps [simp del]

definition zfill :: "nat \<Rightarrow> string \<Rightarrow> string" where
  "zfill width s = replicate (width - length s) (CHR ''0'') @ s"

text \<open>\<open>Keys.TAB\<close> is the code point U+E004, here in UTF-8.\<close>

definition Keys_TAB :: string where
  "Keys_TAB = [CHR 0xEE, CHR 0x80, CHR 0x84]"

definition newline :: string where
  "newline = [CHR 0x0A]"

subsection \<open>Dates: \<open>datetime.strptime\<close> and \<open>strftime\<close>\<close>

definition is_leap :: "nat \<Rightarrow> bool" where
  "is_leap y = (y mod 4 = 0 \<and> (y mod 100 \<noteq> 0 \<or> y mod 400 = 0))"

definition days_in_month :: "nat \<Rightarrow> nat \<Rightarrow> nat" where
  "days_in_month y m =
     (if m = 2 then (if is_leap y then 29 else 28)
      else if m \<in> set [4, 6, 9, 11] then 30 else 31)"

definition digit_val :: "char \<Rightarrow> nat" where
  "digit_val c =
     (case map_of (zip ''0123456789'' [0, 1, 2, 3, 4, 5, 6, 7, 8, 9]) c of
        Some n \<Rightarrow> n
      | None \<Rightarrow> 0)"

text \<open>
  On an ASCII text: \<open>strptime\<close> turns the format \<open>%m/%d/%Y\<close> into the regular expression
  \<^verbatim>\<open>(?P<m>1[0-2]|0[1-9]|[1-9])/(?P<d>3[0-1]|[1-2]\d|0[1-9]|[1-9]| [1-9])/(?P<Y>\d\d\d\d)\<close>
  and matches it at the start of the string. Each group is modelled by the list of its
  ways to match, in the order the alternatives are tried: the value read and the rest of
  the string.
\<close>

definition re_m :: "string \<Rightarrow> (nat \<times> string) list" where
  "re_m s =
     (case s of
        a # b # r \<Rightarrow>
          (if a = CHR ''1'' \<and> b \<in> set ''012'' then [(10 + digit_val b, r)] else []) @
          (if a = CHR ''0'' \<and> b \<in> set ''123456789'' then [(digit_val b, r)] else [])
      | _ \<Rightarrow> []) @
     (case s of
        a # r \<Rightarrow> (if a \<in> set ''123456789'' then [(digit_val a, r)] else [])
      | [] \<Rightarrow> [])"

definition re_d :: "string \<Rightarrow> (nat \<times> string) list" where
  "re_d s =
     (case s of
        a # b # r \<Rightarrow>
          (if a = CHR ''3'' \<and> b \<in> set ''01'' then [(30 + digit_val b, r)] else []) @
          (if a \<in> set ''12'' \<and> b \<in> set ''0123456789''
           then [(10 * digit_val a + digit_val b, r)] else []) @
          (if a = CHR ''0'' \<and> b \<in> set ''123456789'' then [(digit_val b, r)] else [])
      | _ \<Rightarrow> []) @
     (case s of
        a # r \<Rightarrow> (if a \<in> set ''123456789'' then [(digit_val a, r)] else [])
      | [] \<Rightarrow> []) @
     (case s of
        a # b # r \<Rightarrow>
          (if a = CHR '' '' \<and> b \<in> set ''123456789'' then [(digit_val b, r)] else [])
      | _ \<Rightarrow> [])"

definition re_Y :: "string \<Rightarrow> (nat \<times> string) list" where
  "re_Y s =
     (case s of
        a # b # c # d # r \<Rightarrow>
          (if set [a, b, c, d] \<subseteq> set ''0123456789''
           then [(1000 * digit_val a + 100 * digit_val b + 10 * digit_val c + digit_val d, r)]
           else [])
      | _ \<Rightarrow> [])"

definition re_slash :: "string \<Rightarrow> string list" where
  "re_slash s = (case s of c # r \<Rightarrow> (if c = CHR ''/'' then [r] else []) | [] \<Rightarrow> [])"

definition re_mdY :: "string \<Rightarrow> (nat \<times> nat \<times> nat \<times> string) list" where
  "re_mdY s =
     [(m, d, y, r5).
        (m, r1) \<leftarrow> re_m s, r2 \<leftarrow> re_slash r1,
        (d, r3) \<leftarrow> re_d r2, r4 \<leftarrow> re_slash r3,
        (y, r5) \<leftarrow> re_Y r4]"

text \<open>
  \<open>datetime.strptime(s, "%m/%d/%Y")\<close>. On an ASCII text: the first match of the
  expression; the whole string must be consumed; the date must exist (\<open>datetime\<close> accepts
  the years 1 to 9999); every failure is a \<open>ValueError\<close>. On any other text the runtime
  says.
\<close>

definition strptime_mdY :: "runtime \<Rightarrow> string \<Rightarrow> exn + date" where
  "strptime_mdY rt s =
     (if is_ascii s then
        (case re_mdY s of
           [] \<Rightarrow> Inl (ValueError (strptime_message rt s))
         | (m, d, y, rest) # _ \<Rightarrow>
             if rest \<noteq> [] then Inl (ValueError (strptime_message rt s))
             else if y < 1 then Inl (ValueError (strptime_message rt s))
             else if d > days_in_month y m then Inl (ValueError (strptime_message rt s))
             else Inr (Date y m d))
      else strptime_other rt s)"

text \<open>
  \<open>date_obj.strftime("%Y-%m-%d")\<close>: \<open>%m\<close> and \<open>%d\<close> are zero-padded to two digits;
  \<open>%Y\<close> is the year in decimal, which has four digits from the year 1000 on; below,
  the runtime says.
\<close>

definition strftime_Y :: "runtime \<Rightarrow> nat \<Rightarrow> string" where
  "strftime_Y rt y = (if 1000 \<le> y then str_nat y else strftime_year_below_1000 rt y)"

definition strftime_Ymd :: "runtime \<Rightarrow> date \<Rightarrow> string" where
  "strftime_Ymd rt date_obj =
     strftime_Y rt (year date_obj) @ ''-'' @ zfill 2 (str_nat (month date_obj)) @ ''-'' @
     zfill 2 (str_nat (day date_obj))"

subsection \<open>The matcher\<close>

record 'v semantic_model =
  encode :: "string \<Rightarrow> 'v"
  pytorch_cos_sim :: "'v \<Rightarrow> 'v \<Rightarrow> real"

text \<open>A Python dict is an association list with distinct keys, in insertion order.\<close>

record 'v SemanticFormFiller =
  model :: "'v semantic_model"
  form_data :: "(string \<times> string) list"
  field_embeddings :: "(string \<times> 'v) list"

definition create_field_embeddings ::
  "'v semantic_model \<Rightarrow> (string \<times> string) list \<Rightarrow> (string \<times> 'v) list" where
  "create_field_embeddings mdl fd =
     (let field_names = map fst fd;
          embeddings = map (encode mdl) field_names
      in zip field_names embeddings)"

text \<open>\<open>__init__\<close>, with the model and the content of \<open>user_data.json\<close> given.\<close>

definition init :: "'v semantic_model \<Rightarrow> (string \<times> string) list \<Rightarrow> 'v SemanticFormFiller" where
  "init mdl fd =
     \<lparr> model = mdl, form_data = fd, field_embeddings = create_field_embeddings mdl fd \<rparr>"

definition similarities_of :: "'v SemanticFormFiller \<Rightarrow> string \<Rightarrow> (string \<times> real) list" where
  "similarities_of self question_text =
     (let question_embedding = encode (model self) question_text
      in map (\<lambda>(field_name, field_embedding).
                (field_name, pytorch_cos_sim (model self) question_embedding field_embedding))
             (field_embeddings self))"

definition find_best_match ::
  "'v SemanticFormFiller \<Rightarrow> string \<Rightarrow> real \<Rightarrow> exn + string option" where
  "find_best_match self question_text threshold =
     (case py_max snd (similarities_of self question_text) of
        Inl e \<Rightarrow> Inl e
      | Inr best_match \<Rightarrow>
          if snd best_match \<ge> threshold then Inr (Some (fst best_match)) else Inr None)"

subsection \<open>The widget classifier\<close>

definition xp_radio :: string where "xp_radio = ''.//div[@role='radio']''"
definition xp_checkbox :: string where "xp_checkbox = ''.//div[@role='checkbox']''"
definition xp_date :: string where "xp_date = ''.//input[@type='date']''"
definition xp_listbox :: string where "xp_listbox = ''.//div[@role='listbox']''"
definition xp_textarea :: string where "xp_textarea = ''.//textarea''"
definition xp_text :: string where "xp_text = ''.//input[@type='text']''"
definition xp_input :: string where "xp_input = ''.//input''"
definition xp_option :: string where "xp_option = ''//div[@role='option']''"

text \<open>\<open>get_field_type\<close>: an \<open>if\<close>/\<open>elif\<close> chain of searches (a non-empty list is
  true), inside a \<open>try\<close> whose bare \<open>except\<close> answers \<open>"text"\<close>.\<close>

definition get_field_type :: "element \<Rightarrow> string io" where
  "get_field_type element =
     try_except
       (seq (find_elements element xp_radio) (\<lambda>found.
          if found \<noteq> [] then ret ''radio'' else
        seq (find_elements element xp_checkbox) (\<lambda>found.
          if found \<noteq> [] then ret ''checkbox'' else
        seq (find_elements element xp_date) (\<lambda>found.
          if found \<noteq> [] then ret ''date'' else
        seq (find_elements element xp_listbox) (\<lambda>found.
          if found \<noteq> [] then ret ''dropdown'' else
        seq (find_elements element xp_textarea) (\<lambda>found.
          if found \<noteq> [] then ret ''textarea'' else
        seq (find_elements element xp_text) (\<lambda>found.
          if found \<noteq> [] then ret ''text'' else
        ret ''text'')))))))
       (\<lambda>_. ret ''text'')"

subsection \<open>The date strategy\<close>

text \<open>
  The three inner \<open>try\<close> blocks of \<open>fill_date_field\<close>. Each answers \<open>Some True\<close> where
  the source returns \<open>True\<close> from the function, and \<open>None\<close> where its \<open>except: pass\<close>
  lets the function go on.
\<close>

definition set_date_directly :: "element \<Rightarrow> string \<Rightarrow> bool option io" where
  "set_date_directly date_input formatted_date =
     try_except
       (seq (send_keys date_input formatted_date) (\<lambda>_. ret (Some True)))
       (\<lambda>_. ret None)"

definition set_date_by_keyboard :: "element \<Rightarrow> date \<Rightarrow> bool option io" where
  "set_date_by_keyboard date_input date_obj =
     try_except
       (seq (click date_input) (\<lambda>_.
        seq (send_keys date_input (str_nat (year date_obj))) (\<lambda>_.
        seq (send_keys date_input Keys_TAB) (\<lambda>_.
        seq (send_keys date_input (zfill 2 (str_nat (month date_obj)))) (\<lambda>_.
        seq (send_keys date_input Keys_TAB) (\<lambda>_.
        seq (send_keys date_input (zfill 2 (str_nat (day date_obj)))) (\<lambda>_.
        ret (Some True))))))))
       (\<lambda>_. ret None)"

definition js_set_value :: string where
  "js_set_value = ''arguments[0].value = arguments[1];''"

definition set_date_by_script :: "driver \<Rightarrow> element \<Rightarrow> string \<Rightarrow> bool option io" where
  "set_date_by_script drv date_input formatted_date =
     try_except
       (seq (execute_script drv js_set_value date_input [formatted_date]) (\<lambda>_. ret (Some True)))
       (\<lambda>_. ret None)"

definition fill_date_field :: "runtime \<Rightarrow> driver \<Rightarrow> element \<Rightarrow> string \<Rightarrow> bool io" where
  "fill_date_field rt drv element date_str =
     try_except
       (seq (lift (strptime_mdY rt date_str)) (\<lambda>date_obj.
        seq (find_element rt element xp_date) (\<lambda>date_input.
        let formatted_date = strftime_Ymd rt date_obj in
        seq (clear date_input) (\<lambda>_.
        seq (set_date_directly date_input formatted_date) (\<lambda>r.
          case r of Some b \<Rightarrow> ret b | None \<Rightarrow>
        seq (set_date_by_keyboard date_input date_obj) (\<lambda>r.
          case r of Some b \<Rightarrow> ret b | None \<Rightarrow>
        seq (set_date_by_script drv date_input formatted_date) (\<lambda>r.
          case r of Some b \<Rightarrow> ret b | None \<Rightarrow>
        seq (print (''Warning: Could not set date '' @ date_str @ '' using any method'')) (\<lambda>_.
        ret False))))))))
       (\<lambda>e. seq (print (''Error filling date field: '' @ msg e)) (\<lambda>_. ret False))"

subsection \<open>The choice strategies\<close>

text \<open>The score of two texts:
  \<open>util.pytorch_cos_sim(self.model.encode(a), self.model.encode(b)).item()\<close>.\<close>

definition similarity :: "'v SemanticFormFiller \<Rightarrow> string \<Rightarrow> string \<Rightarrow> real" where
  "similarity self a b =
     pytorch_cos_sim (model self) (encode (model self) a) (encode (model self) b)"

text \<open>
  \<open>fill_radio_field\<close> and \<open>fill_dropdown_field\<close> run the same four loops over their
  options, one after the other. A loop answers \<open>Some True\<close> where the source returns
  \<open>True\<close> from inside it, and \<open>None\<close> when it ends without returning.
\<close>

fun exact_match_loop :: "runtime \<Rightarrow> string \<Rightarrow> element list \<Rightarrow> bool option io" where
  "exact_match_loop rt v [] = ret None"
| "exact_match_loop rt v (option # rest) =
     seq (get_text option) (\<lambda>t.
       let option_text = lower rt (strip rt t) in
       if lower rt v = option_text then seq (click option) (\<lambda>_. ret (Some True))
       else exact_match_loop rt v rest)"

fun partial_match_loop :: "runtime \<Rightarrow> string \<Rightarrow> element list \<Rightarrow> bool option io" where
  "partial_match_loop rt v [] = ret None"
| "partial_match_loop rt v (option # rest) =
     seq (get_text option) (\<lambda>t.
       let option_text = lower rt (strip rt t) in
       if py_in (lower rt v) option_text \<or> py_in option_text (lower rt v)
       then seq (click option) (\<lambda>_. ret (Some True))
       else partial_match_loop rt v rest)"

fun semantic_match_loop ::
  "runtime \<Rightarrow> 'v SemanticFormFiller \<Rightarrow> string \<Rightarrow> element list \<Rightarrow> bool option io" where
  "semantic_match_loop rt self v [] = ret None"
| "semantic_match_loop rt self v (option # rest) =
     seq (get_text option) (\<lambda>t.
       let option_text = strip rt t;
           sim = similarity self option_text v in
       if sim > 0.7 then seq (click option) (\<lambda>_. ret (Some True))
       else semantic_match_loop rt self v rest)"

text \<open>The fourth loop keeps \<open>best_match\<close> and \<open>best_similarity\<close>, which start as \<open>None\<close>
  and \<open>0\<close>.\<close>

fun closest_loop ::
  "runtime \<Rightarrow> 'v SemanticFormFiller \<Rightarrow> string \<Rightarrow> element list \<Rightarrow> element option \<times> real \<Rightarrow>
   (element option \<times> real) io" where
  "closest_loop rt self v [] best = ret best"
| "closest_loop rt self v (option # rest) (best_match, best_similarity) =
     seq (get_text option) (\<lambda>t.
       let option_text = strip rt t;
           sim = similarity self option_text v in
       closest_loop rt self v rest
         (if sim > best_similarity then (Some option, sim) else (best_match, best_similarity)))"

definition choose_option :: "runtime \<Rightarrow> 'v SemanticFormFiller \<Rightarrow> string \<Rightarrow> element list \<Rightarrow> bool io" where
  "choose_option rt self v options =
     seq (exact_match_loop rt v options) (\<lambda>r.
       case r of Some b \<Rightarrow> ret b | None \<Rightarrow>
     seq (partial_match_loop rt v options) (\<lambda>r.
       case r of Some b \<Rightarrow> ret b | None \<Rightarrow>
     seq (semantic_match_loop rt self v options) (\<lambda>r.
       case r of Some b \<Rightarrow> ret b | None \<Rightarrow>
     seq (closest_loop rt self v options (None, 0)) (\<lambda>(best_match, best_similarity).
       case best_match of
         Some option \<Rightarrow>
           if best_similarity > 0.5 then seq (click option) (\<lambda>_. ret True) else ret False
       | None \<Rightarrow> ret False))))"

definition fill_radio_field ::
  "runtime \<Rightarrow> 'v SemanticFormFiller \<Rightarrow> driver \<Rightarrow> element \<Rightarrow> string \<Rightarrow> bool io" where
  "fill_radio_field rt self drv element v =
     try_except
       (seq (find_elements element xp_radio) (\<lambda>radio_options.
        choose_option rt self v radio_options))
       (\<lambda>e. seq (print (''Error filling radio field: '' @ msg e)) (\<lambda>_. ret False))"

definition fill_dropdown_field ::
  "runtime \<Rightarrow> 'v SemanticFormFiller \<Rightarrow> driver \<Rightarrow> element \<Rightarrow> string \<Rightarrow> bool io" where
  "fill_dropdown_field rt self drv element v =
     try_except
       (seq (find_element rt element xp_listbox) (\<lambda>dropdown.
        seq (click dropdown) (\<lambda>_.
        seq (find_elements (page drv) xp_option) (\<lambda>options.
        choose_option rt self v options))))
       (\<lambda>e. seq (print (''Error filling dropdown field: '' @ msg e)) (\<lambda>_. ret False))"

subsection \<open>The text strategy\<close>

definition input_types :: "string list" where
  "input_types = [xp_text, xp_input, xp_textarea]"

text \<open>The loop over \<open>input_types\<close>: its inner \<open>try\<close> goes on to the next selector on
  \<open>NoSuchElementException\<close> only.\<close>

fun input_loop :: "runtime \<Rightarrow> element \<Rightarrow> string \<Rightarrow> string list \<Rightarrow> bool io" where
  "input_loop rt element v [] = ret False"
| "input_loop rt element v (input_type # rest) =
     try_except
       (seq (find_element rt element input_type) (\<lambda>input_field.
        seq (clear input_field) (\<lambda>_.
        seq (send_keys input_field v) (\<lambda>_.
        ret True))))
       (\<lambda>e. if is_NoSuchElementException e then input_loop rt element v rest else throw e)"

definition fill_text_field :: "runtime \<Rightarrow> driver \<Rightarrow> element \<Rightarrow> string \<Rightarrow> bool io" where
  "fill_text_field rt drv element v =
     try_except
       (input_loop rt element v input_types)
       (\<lambda>e. seq (print (''Error filling text field: '' @ msg e)) (\<lambda>_. ret False))"

subsection \<open>Question discovery and container resolution\<close>

definition quote :: string where
  "quote = [CHR 0x27]"

definition span_with_text :: "string \<Rightarrow> string \<Rightarrow> string" where
  "span_with_text class_name txt =
     ''//div[contains(@class, '' @ quote @ class_name @ quote @
     '')]//span[contains(text(), '' @ quote @ txt @ quote @ '')]''"

definition xpath_patterns :: "string \<Rightarrow> string list" where
  "xpath_patterns txt =
     [span_with_text ''Qr7Oae'' txt,
      span_with_text ''geS5n'' txt,
      span_with_text ''M7eMe'' txt,
      span_with_text ''freebirdFormviewerViewItemsItemItem'' txt]"

definition xp_ancestor :: string where
  "xp_ancestor = ''.//ancestor::div[contains(@class, 'geS5n')]''"

fun pattern_loop :: "runtime \<Rightarrow> driver \<Rightarrow> string list \<Rightarrow> element option io" where
  "pattern_loop rt drv [] = ret None"
| "pattern_loop rt drv (pattern # rest) =
     try_except
       (seq (find_element rt (page drv) pattern) (\<lambda>element.
        seq (find_element rt element xp_ancestor) (\<lambda>container.
        ret (Some container))))
       (\<lambda>e. if is_NoSuchElementException e then pattern_loop rt drv rest else throw e)"

definition find_field_by_text :: "runtime \<Rightarrow> driver \<Rightarrow> string \<Rightarrow> element option io" where
  "find_field_by_text rt drv txt =
     try_except
       (pattern_loop rt drv (xpath_patterns txt))
       (\<lambda>e. seq (print (''Error finding field by text '' @ quote @ txt @ quote @ '': '' @ msg e))
              (\<lambda>_. ret None))"

definition span_of_class :: "string \<Rightarrow> string" where
  "span_of_class class_name =
     ''//div[contains(@class, '' @ quote @ class_name @ quote @
     '')]//span[contains(@class, 'M7eMe')]''"

definition question_patterns :: "string list" where
  "question_patterns =
     [span_of_class ''Qr7Oae'',
      span_of_class ''freebirdFormviewerViewItemsItemItem'',
      span_of_class ''geS5n'']"

fun question_text_loop :: "runtime \<Rightarrow> element list \<Rightarrow> string list \<Rightarrow> string list io" where
  "question_text_loop rt [] questions = ret questions"
| "question_text_loop rt (element # rest) questions =
     seq (get_text element) (\<lambda>t.
       let question_text = strip rt t in
       question_text_loop rt rest
         (if question_text \<noteq> [] \<and> question_text \<notin> set questions
          then questions @ [question_text] else questions))"

fun question_pattern_loop :: "runtime \<Rightarrow> driver \<Rightarrow> string list \<Rightarrow> string list \<Rightarrow> string list io" where
  "question_pattern_loop rt drv [] questions = ret questions"
| "question_pattern_loop rt drv (pattern # rest) questions =
     seq (find_elements (page drv) pattern) (\<lambda>elements.
     seq (question_text_loop rt elements questions) (\<lambda>questions'.
     question_pattern_loop rt drv rest questions'))"

definition get_form_questions :: "runtime \<Rightarrow> driver \<Rightarrow> string list io" where
  "get_form_questions rt drv =
     try_except
       (question_pattern_loop rt drv question_patterns [])
       (\<lambda>e. seq (print (''Error extracting questions: '' @ msg e)) (\<lambda>_. ret []))"

subsection \<open>The fill pass\<close>

definition js_scroll :: string where
  "js_scroll = ''arguments[0].scrollIntoView(true);''"

text \<open>The body of the \<open>for question in questions\<close> loop of \<open>fill_form\<close>. An object is
  true in \<open>if best_match:\<close> unless it is \<open>None\<close> or the empty string; a web element is
  always true.\<close>

definition process_question :: "runtime \<Rightarrow> 'v SemanticFormFiller \<Rightarrow> driver \<Rightarrow> string \<Rightarrow> unit io" where
  "process_question rt self drv question =
     seq (print (newline @ ''Processing question: '' @ question)) (\<lambda>_.
     seq (lift (find_best_match self question 0.5)) (\<lambda>best_match.
     if best_match \<noteq> None \<and> best_match \<noteq> Some [] then
       seq (print (''Matched with field: '' @ the best_match)) (\<lambda>_.
       seq (lift (py_getitem rt (form_data self) (the best_match))) (\<lambda>v.
       seq (find_field_by_text rt drv question) (\<lambda>field_container.
       case field_container of
         Some container \<Rightarrow>
           seq (get_field_type container) (\<lambda>field_type.
           seq (print (''Field type: '' @ field_type)) (\<lambda>_.
           seq (execute_script drv js_scroll container []) (\<lambda>_.
           seq (if field_type = ''date'' then fill_date_field rt drv container v
                else if field_type = ''radio'' then fill_radio_field rt self drv container v
                else if field_type = ''dropdown'' then fill_dropdown_field rt self drv container v
                else fill_text_field rt drv container v) (\<lambda>success.
           if success then print (''Successfully filled with: '' @ v)
           else print (''Failed to fill field with value: '' @ v)))))
       | None \<Rightarrow> print (''Could not find input field for question: '' @ question))))
     else print (''No matching field found for question: '' @ question)))"

fun question_loop :: "runtime \<Rightarrow> 'v SemanticFormFiller \<Rightarrow> driver \<Rightarrow> string list \<Rightarrow> unit io" where
  "question_loop rt self drv [] = ret ()"
| "question_loop rt self drv (question # rest) =
     seq (process_question rt self drv question) (\<lambda>_. question_loop rt self drv rest)"

text \<open>\<open>fill_form\<close>. The line that the final \<open>input()\<close> reads is not used.\<close>

definition fill_form :: "runtime \<Rightarrow> 'v SemanticFormFiller \<Rightarrow> driver \<Rightarrow> unit io" where
  "fill_form rt self drv =
     try_except
       (seq (print ''Waiting for form to load...'') (\<lambda>_.
        seq (get_form_questions rt drv) (\<lambda>questions.
        seq (print (newline @ ''Found '' @ str_nat (length questions) @
                    '' questions in the form'')) (\<lambda>_.
        seq (question_loop rt self drv questions) (\<lambda>_.
        seq (print (newline @ ''Form filling completed!'')) (\<lambda>_.
        seq (print ''Please review the filled form and submit it manually.'') (\<lambda>_.
        seq (print ''Press Enter when you're done...'') (\<lambda>_.
        seq (lift (input_answer rt)) (\<lambda>_.
        ret ())))))))))
       (\<lambda>e. print (''Error filling form: '' @ msg e))"

subsection \<open>A small concrete instance\<close>

text \<open>A stand-in for the embedding model, used to run the definitions: a text is
  embedded as its length, and two embeddings score \<open>2 / (2 + distance)\<close>.\<close>

definition length_model :: "nat semantic_model" where
  "length_model =
     \<lparr> encode = length,
       pytorch_cos_sim = (\<lambda>a b. 2 / (2 + real (if a \<le> b then b - a else a - b))) \<rparr>"

definition ada_profile :: "(string \<times> string) list" where
  "ada_profile = [(''Full Name'', ''Ada Lovelace''), (''Birth Date'', ''12/10/1815'')]"

definition ada :: "nat SemanticFormFiller" where
  "ada = init length_model ada_profile"

text \<open>Elements to run the browser side on: \<open>leaf txt\<close> shows the text \<open>txt\<close>, accepts
  every command and contains nothing; every call on \<open>broken\<close> raises.\<close>

definition leaf :: "string \<Rightarrow> element" where
  "leaf txt = Element (Inr txt) None None (\<lambda>_. None) (\<lambda>_. Inr [])"

definition stale :: wd_error where
  "stale = (WebDriverException, ''stale element reference'')"

definition broken :: element where
  "broken = Element (Inl stale) (Some stale) (Some stale) (\<lambda>_. Some stale) (\<lambda>_. Inl stale)"

text \<open>A runtime to run the definitions on. The examples below use ASCII texts and
  years of four digits, where only its messages are consulted.\<close>

definition plain_runtime :: runtime where
  "plain_runtime =
     \<lparr> str_lower = (\<lambda>s. s),
       str_strip = (\<lambda>s. s),
       strptime_other = (\<lambda>s. Inl (ValueError ''time data does not match format'')),
       strptime_message = (\<lambda>s. ''time data does not match format''),
       strftime_year_below_1000 = str_nat,
       str_repr = (\<lambda>s. quote @ s @ quote),
       no_such_element_message = (\<lambda>xpath. ''Message: no such element: '' @ xpath),
       input_answer = Inr [] \<rparr>"

definition quiet_driver :: driver where
  "quiet_driver = \<lparr> page = leaf [], on_execute_script = (\<lambda>_ _ _. None) \<rparr>"

subsection \<open>Vocabulary for the properties\<close>

text \<open>What a search on a container finds: some element, nothing, or an exception.\<close>

definition present :: "element \<Rightarrow> string \<Rightarrow> bool" where
  "present el xpath = (case on_find_elements el xpath of Inr (x # xs) \<Rightarrow> True | _ \<Rightarrow> False)"

definition absent :: "element \<Rightarrow> string \<Rightarrow> bool" where
  "absent el xpath = (on_find_elements el xpath = Inr [])"

definition probe_fails :: "element \<Rightarrow> string \<Rightarrow> bool" where
  "probe_fails el xpath = (case on_find_elements el xpath of Inl err \<Rightarrow> True | Inr found \<Rightarrow> False)"

text \<open>The markers of the classifier in its order of priority, each with the type it
  stands for, and the first decisive search along such a list.\<close>

definition markers :: "(string \<times> string) list" where
  "markers =
     [(xp_radio, ''radio''), (xp_checkbox, ''checkbox''), (xp_date, ''date''),
      (xp_listbox, ''dropdown''), (xp_textarea, ''textarea''), (xp_text, ''text'')]"

fun first_marker :: "element \<Rightarrow> (string \<times> string) list \<Rightarrow> string" where
  "first_marker el [] = ''text''"
| "first_marker el ((xpath, ty) # rest) =
     (case on_find_elements el xpath of
        Inl err \<Rightarrow> ''text''
      | Inr found \<Rightarrow> if found \<noteq> [] then ty else first_marker el rest)"

text \<open>A container that holds both radio options and a text input.\<close>

definition radio_and_text :: element where
  "radio_and_text =
     Element (Inr ''Favourite colour'') None None (\<lambda>_. None)
       (\<lambda>xpath. if xpath = xp_radio then Inr [leaf ''Red'', leaf ''Blue'']
                 else if xpath = xp_text then Inr [leaf []]
                 else Inr [])"


text \<open>A container that holds a date input and nothing else.\<close>

definition date_widget :: element where
  "date_widget =
     Element (Inr ''Birth date'') None None (\<lambda>_. None)
       (\<lambda>xpath. if xpath = xp_date then Inr [leaf []] else Inr [])"


text \<open>For the text strategy: an element that can be cleared and takes the keys; a
  selector whose search does not raise and whose first element, if any, is such.\<close>

definition writable :: "element \<Rightarrow> string \<Rightarrow> bool" where
  "writable f v = (on_clear f = None \<and> on_send_keys f v = None)"

definition calm :: "element \<Rightarrow> string \<Rightarrow> string \<Rightarrow> bool" where
  "calm el v xpath =
     (case on_find_elements el xpath of
        Inl err \<Rightarrow> False
      | Inr [] \<Rightarrow> True
      | Inr (f # fs) \<Rightarrow> writable f v)"

text \<open>A question whose only input cannot be typed into, and one with a text area
  only.\<close>

definition locked_input :: element where
  "locked_input =
     Element (Inr []) None None
       (\<lambda>_. Some (WebDriverException, ''element not interactable'')) (\<lambda>_. Inr [])"

definition locked_field :: element where
  "locked_field =
     Element (Inr ''Full name'') None None (\<lambda>_. None)
       (\<lambda>xpath. if xpath = xp_text then Inr [locked_input] else Inr [])"

definition textarea_field :: element where
  "textarea_field =
     Element (Inr ''Comments'') None None (\<lambda>_. None)
       (\<lambda>xpath. if xpath = xp_textarea then Inr [leaf []] else Inr [])"


text \<open>For the choice strategies: an option whose text can be read, its text as the
  loops see it, the tests of the first three loops, and the score of the last two.\<close>

definition readable :: "element \<Rightarrow> bool" where
  "readable opt = (case text_of opt of Inl err \<Rightarrow> False | Inr s \<Rightarrow> True)"

definition shown_text :: "runtime \<Rightarrow> element \<Rightarrow> string" where
  "shown_text rt opt = (case text_of opt of Inl err \<Rightarrow> [] | Inr s \<Rightarrow> strip rt s)"

definition exact_match :: "runtime \<Rightarrow> string \<Rightarrow> element \<Rightarrow> bool" where
  "exact_match rt v opt = (lower rt v = lower rt (shown_text rt opt))"

definition partial_match :: "runtime \<Rightarrow> string \<Rightarrow> element \<Rightarrow> bool" where
  "partial_match rt v opt =
     (py_in (lower rt v) (lower rt (shown_text rt opt)) \<or> py_in (lower rt (shown_text rt opt)) (lower rt v))"

definition score :: "runtime \<Rightarrow> 'v SemanticFormFiller \<Rightarrow> string \<Rightarrow> element \<Rightarrow> real" where
  "score rt self v opt = similarity self (shown_text rt opt) v"

text \<open>The answer of a strategy that decides for an option, after the events
  \<open>before\<close>: \<open>True\<close> and the click, or \<open>False\<close> and the error line when the click raises.\<close>

definition decides :: "string \<Rightarrow> event list \<Rightarrow> element \<Rightarrow> bool io" where
  "decides label before opt =
     (case on_click opt of
        None \<Rightarrow> (Inr True, before @ [Click opt])
      | Some err \<Rightarrow> (Inr False, before @ [Print (label @ snd err)]))"

text \<open>A click followed by a returned value.\<close>

definition click_then :: "element \<Rightarrow> 'a \<Rightarrow> 'a io" where
  "click_then opt x = seq (click opt) (\<lambda>_. ret x)"


text \<open>The options a radio question lists, and the options of a dropdown whose
  control was found and opened.\<close>

definition radio_options :: "element \<Rightarrow> element list \<Rightarrow> bool" where
  "radio_options element opts = (on_find_elements element xp_radio = Inr opts)"

definition dropdown_options :: "driver \<Rightarrow> element \<Rightarrow> element \<Rightarrow> element list \<Rightarrow> bool" where
  "dropdown_options drv element dropdown opts =
     ((case on_find_elements element xp_listbox of
         Inl err \<Rightarrow> False
       | Inr found \<Rightarrow> found \<noteq> [] \<and> hd found = dropdown)
      \<and> on_click dropdown = None
      \<and> on_find_elements (page drv) xp_option = Inr opts)"

text \<open>A radio question and a dropdown question over given option texts.\<close>

definition radio_field :: "string list \<Rightarrow> element" where
  "radio_field texts =
     Element (Inr ''Colour'') None None (\<lambda>_. None)
       (\<lambda>xpath. if xpath = xp_radio then Inr (map leaf texts) else Inr [])"

definition dropdown_field :: element where
  "dropdown_field =
     Element (Inr ''Colour'') None None (\<lambda>_. None)
       (\<lambda>xpath. if xpath = xp_listbox then Inr [leaf ''Choose''] else Inr [])"

definition options_driver :: "string list \<Rightarrow> driver" where
  "options_driver texts =
     \<lparr> page = Element (Inr []) None None (\<lambda>_. None)
                (\<lambda>xpath. if xpath = xp_option then Inr (map leaf texts) else Inr []),
       on_execute_script = (\<lambda>_ _ _. None) \<rparr>"


text \<open>The same over given option elements; an option that shows \<open>Red\<close> and cannot be
  clicked, and one whose text cannot be read.\<close>

definition radio_of :: "element list \<Rightarrow> element" where
  "radio_of opts =
     Element (Inr ''Colour'') None None (\<lambda>_. None)
       (\<lambda>xpath. if xpath = xp_radio then Inr opts else Inr [])"

definition options_page :: "element list \<Rightarrow> driver" where
  "options_page opts =
     \<lparr> page = Element (Inr []) None None (\<lambda>_. None)
                (\<lambda>xpath. if xpath = xp_option then Inr opts else Inr []),
       on_execute_script = (\<lambda>_ _ _. None) \<rparr>"

definition stuck_option :: element where
  "stuck_option =
     Element (Inr ''Red'') (Some (WebDriverException, ''element not interactable'')) None
       (\<lambda>_. None) (\<lambda>_. Inr [])"

definition unread_option :: element where
  "unread_option = Element (Inl stale) None None (\<lambda>_. None) (\<lambda>_. Inr [])"

text \<open>For the date strategy: a date that exists, its \<open>month/day/year\<close> and
  \<open>year-month-day\<close> writings with leading zeros, the keys of the keyboard technique, and
  an input on which that technique goes through.\<close>

definition valid_date :: "nat \<Rightarrow> nat \<Rightarrow> nat \<Rightarrow> bool" where
  "valid_date y m d = (1 \<le> y \<and> y \<le> 9999 \<and> 1 \<le> m \<and> m \<le> 12 \<and> 1 \<le> d \<and> d \<le> days_in_month y m)"

definition mdY_string :: "nat \<Rightarrow> nat \<Rightarrow> nat \<Rightarrow> string" where
  "mdY_string y m d = zfill 2 (str_nat m) @ ''/'' @ zfill 2 (str_nat d) @ ''/'' @ zfill 4 (str_nat y)"

definition Ymd_string :: "nat \<Rightarrow> nat \<Rightarrow> nat \<Rightarrow> string" where
  "Ymd_string y m d = zfill 4 (str_nat y) @ ''-'' @ zfill 2 (str_nat m) @ ''-'' @ zfill 2 (str_nat d)"

definition keyboard_keys :: "date \<Rightarrow> string list" where
  "keyboard_keys date_obj =
     [str_nat (year date_obj), Keys_TAB, zfill 2 (str_nat (month date_obj)), Keys_TAB,
      zfill 2 (str_nat (day date_obj))]"

definition keyboard_ok :: "element \<Rightarrow> date \<Rightarrow> bool" where
  "keyboard_ok inp date_obj =
     (on_click inp = None \<and> (\<forall>k \<in> set (keyboard_keys date_obj). on_send_keys inp k = None))"

text \<open>What the keyboard technique spells: its three segments, with a hyphen where it
  sends a tab.\<close>

definition keyboard_value :: "date \<Rightarrow> string" where
  "keyboard_value date_obj =
     str_nat (year date_obj) @ ''-'' @ zfill 2 (str_nat (month date_obj)) @ ''-'' @
     zfill 2 (str_nat (day date_obj))"

text \<open>The line printed when no technique worked.\<close>

definition date_warning :: "string \<Rightarrow> event" where
  "date_warning date_str = Print (''Warning: Could not set date '' @ date_str @ '' using any method'')"

text \<open>Date questions around a given input; inputs that refuse to be cleared, refuse
  the formatted value, or refuse every key; a driver whose scripts fail.\<close>

definition frozen_input :: element where
  "frozen_input =
     Element (Inr []) None (Some (WebDriverException, ''invalid element state''))
       (\<lambda>_. None) (\<lambda>_. Inr [])"

definition frozen_field :: element where
  "frozen_field =
     Element (Inr ''Full name'') None None (\<lambda>_. None)
       (\<lambda>xpath. if xpath = xp_text then Inr [frozen_input] else Inr [])"

definition date_field_of :: "element \<Rightarrow> element" where
  "date_field_of inp =
     Element (Inr ''Birth date'') None None (\<lambda>_. None)
       (\<lambda>xpath. if xpath = xp_date then Inr [inp] else Inr [])"

definition untyped :: wd_error where
  "untyped = (WebDriverException, ''element not interactable'')"

definition picky_input :: element where
  "picky_input =
     Element (Inr []) None None (\<lambda>keys. if keys = ''2024-03-07'' then Some untyped else None)
       (\<lambda>_. Inr [])"

definition mute_input :: element where
  "mute_input = Element (Inr []) None None (\<lambda>_. Some untyped) (\<lambda>_. Inr [])"

definition scriptless_driver :: driver where
  "scriptless_driver =
     \<lparr> page = leaf [], on_execute_script = (\<lambda>_ _ _. Some (WebDriverException, ''javascript error'')) \<rparr>"


text \<open>For the fill pass: the line that opens the processing of a question; a driver
  whose scroll command never raises; a page with the questions \<open>Full Name\<close> and
  \<open>Birth Date\<close>, of which the first has a container with a text input; a driver on which
  every script goes through and one on which every script raises.\<close>

definition processing_line :: "string \<Rightarrow> event" where
  "processing_line question = Print (newline @ ''Processing question: '' @ question)"

definition name_container :: element where
  "name_container =
     Element (Inr ''Full Name'') None None (\<lambda>_. None)
       (\<lambda>xpath. if xpath = xp_text then Inr [leaf []] else Inr [])"

definition name_label :: element where
  "name_label =
     Element (Inr ''Full Name'') None None (\<lambda>_. None)
       (\<lambda>xpath. if xpath = xp_ancestor then Inr [name_container] else Inr [])"

definition two_question_page :: element where
  "two_question_page =
     Element (Inr []) None None (\<lambda>_. None)
       (\<lambda>xpath. if xpath = span_of_class ''Qr7Oae''
                 then Inr [leaf ''Full Name'', leaf ''Birth Date'']
                 else if xpath = span_with_text ''Qr7Oae'' ''Full Name'' then Inr [name_label]
                 else Inr [])"

definition form_driver :: driver where
  "form_driver = \<lparr> page = two_question_page, on_execute_script = (\<lambda>_ _ _. None) \<rparr>"

definition jammed_driver :: driver where
  "jammed_driver =
     \<lparr> page = two_question_page,
       on_execute_script = (\<lambda>_ _ _. Some (WebDriverException, ''javascript error'')) \<rparr>"



section \<open>Reasoning about computations\<close>

lemma seq_Inr: "seq (Inr x, t) f = (case f x of (r, t') \<Rightarrow> (r, t @ t'))"
  by (simp add: seq_def)

lemma seq_Inl: "seq (Inl e, t) f = (Inl e, t)"
  by (simp add: seq_def)

lemma try_except_Inr: "try_except (Inr x, t) h = (Inr x, t)"
  by (simp add: try_except_def)

lemma try_except_Inl: "try_except (Inl e, t) h = (case h e of (r, t') \<Rightarrow> (r, t @ t'))"
  by (simp add: try_except_def)

lemmas io_simps =
  ret_def throw_def emit_def lift_def print_def call_def selenium_def
  seq_Inr seq_Inl try_except_Inr try_except_Inl

lemmas selenium_simps =
  get_text_def click_def clear_def send_keys_def find_elements_def find_element_def
  execute_script_def

text \<open>A computation whose value is known splits into that value and its events.\<close>

lemma io_eqI: "fst m = r \<Longrightarrow> snd m = t \<Longrightarrow> m = (r, t)"
  by (cases m) simp

text \<open>A \<open>try\<close> whose handler always returns a value returns a value.\<close>

lemma try_except_total:
  assumes "\<And>e. \<exists>x t. h e = (Inr x, t)"
  shows "\<exists>x t. try_except m h = (Inr x, t)"
proof (cases m)
  case (Pair r t)
  show ?thesis
  proof (cases r)
    case (Inl e)
    from assms [of e] obtain x t' where "h e = (Inr x, t')" by blast
    with Pair Inl show ?thesis by (simp add: try_except_Inl)
  next
    case (Inr x)
    with Pair show ?thesis by (simp add: try_except_Inr)
  qed
qed

lemma seq_ret: "seq (ret x) f = f x"
  by (cases "f x") (simp add: ret_def seq_Inr)

lemma seq_throw: "seq (throw e) f = throw e"
  by (simp add: throw_def seq_Inl)

lemma print_then_ret: "seq (print s) (\<lambda>_. ret x) = (Inr x, [Print s])"
  by (simp add: io_simps)

section \<open>Properties of the matcher\<close>

lemma max_from_mem: "max_from key m xs \<in> set (m # xs)"
  by (induction xs arbitrary: m) auto

lemma max_from_ge_start: "key m \<le> key (max_from key m xs)"
proof (induction xs arbitrary: m)
  case Nil
  show ?case by simp
next
  case (Cons x xs)
  have "key m \<le> key (if key x > key m then x else m)" by simp
  also have "\<dots> \<le> key (max_from key (if key x > key m then x else m) xs)"
    by (rule Cons.IH)
  finally show ?case by simp
qed

lemma max_from_ge: "y \<in> set (m # xs) \<Longrightarrow> key y \<le> key (max_from key m xs)"
proof (induction xs arbitrary: m)
  case Nil
  then show ?case by simp
next
  case (Cons x xs)
  let ?m' = "if key x > key m then x else m"
  from Cons.prems consider "y = m" | "y = x" | "y \<in> set xs" by auto
  then show ?case
  proof cases
    case 1
    have "key m \<le> key ?m'" by simp
    also have "\<dots> \<le> key (max_from key ?m' xs)" by (rule max_from_ge_start)
    finally show ?thesis using 1 by simp
  next
    case 2
    have "key x \<le> key ?m'" by simp
    also have "\<dots> \<le> key (max_from key ?m' xs)" by (rule max_from_ge_start)
    finally show ?thesis using 2 by simp
  next
    case 3
    then have "y \<in> set (?m' # xs)" by simp
    then have "key y \<le> key (max_from key ?m' xs)" by (rule Cons.IH)
    then show ?thesis by simp
  qed
qed

lemma py_max_Inr:
  assumes "py_max key xs = Inr b"
  shows "b \<in> set xs \<and> (\<forall>y \<in> set xs. key y \<le> key b)"
proof (cases xs)
  case Nil
  with assms show ?thesis by (simp add: py_max_def)
next
  case (Cons x rest)
  with assms have b: "b = max_from key x rest" by (simp add: py_max_def)
  have "b \<in> set xs" unfolding b Cons by (rule max_from_mem)
  moreover have "\<forall>y \<in> set xs. key y \<le> key b"
    unfolding b Cons using max_from_ge [of _ x rest key] by blast
  ultimately show ?thesis by simp
qed

lemma py_max_nonempty: "xs \<noteq> [] \<Longrightarrow> \<exists>b. py_max key xs = Inr b"
  by (cases xs) (simp_all add: py_max_def)

lemma similarities_keys:
  "map fst (similarities_of self q) = map fst (field_embeddings self)"
  by (simp add: similarities_of_def Let_def case_prod_unfold comp_def)

lemma find_best_match_Some:
  assumes "find_best_match self q t = Inr (Some f)"
  shows "\<exists>s. (f, s) \<in> set (similarities_of self q) \<and> t \<le> s
           \<and> (\<forall>p \<in> set (similarities_of self q). snd p \<le> s)"
proof -
  from assms obtain b where b: "py_max snd (similarities_of self q) = Inr b"
    and ge: "t \<le> snd b" and f: "f = fst b"
    by (auto simp: find_best_match_def split: sum.splits if_splits)
  from py_max_Inr [OF b] have "b \<in> set (similarities_of self q)"
    and "\<forall>p \<in> set (similarities_of self q). snd p \<le> snd b" by simp_all
  with ge f show ?thesis by (intro exI [of _ "snd b"]) simp
qed

lemma ada_similarities:
  "similarities_of ada ''Your name'' = [(''Full Name'', 1), (''Birth Date'', 2 / 3)]"
  by (simp add: similarities_of_def ada_def init_def create_field_embeddings_def
      length_model_def ada_profile_def)

lemma ada_best_match:
  "t \<le> 1 \<Longrightarrow> find_best_match ada ''Your name'' t = Inr (Some ''Full Name'')"
  by (simp add: find_best_match_def ada_similarities py_max_def)

text \<open>
  Claim C2. Lowering the threshold keeps every match: when \<open>find_best_match\<close> returns a
  field name at threshold \<open>t2\<close>, it returns the same field name at every threshold
  \<open>t1 \<le> t2\<close>, for every question and every set of cached embeddings.
\<close>

theorem find_best_match_threshold_monotone:
  assumes "t1 \<le> t2"
    and "find_best_match self q t2 = Inr (Some f)"
  shows "find_best_match self q t1 = Inr (Some f)"
  using assms by (auto simp: find_best_match_def split: sum.splits if_splits)

theorem find_best_match_threshold_monotone_witness:
  "(1 / 2 :: real) \<le> 9 / 10
   \<and> find_best_match ada ''Your name'' (9 / 10) = Inr (Some ''Full Name'')
   \<and> find_best_match ada ''Your name'' (1 / 2) = Inr (Some ''Full Name'')"
proof -
  have le: "(1 / 2 :: real) \<le> 9 / 10" by simp
  have hi: "find_best_match ada ''Your name'' (9 / 10) = Inr (Some ''Full Name'')"
    by (rule ada_best_match) simp
  from find_best_match_threshold_monotone [OF le hi] le hi show ?thesis by simp
qed

section \<open>The fill strategies never raise\<close>

lemma handler_total: "\<exists>x t. seq (print s) (\<lambda>_. ret False) = (Inr x, t)"
  unfolding print_then_ret by blast

lemma fill_date_field_returns: "\<exists>b t. fill_date_field rt drv element v = (Inr b, t)"
  unfolding fill_date_field_def by (intro try_except_total handler_total)

lemma fill_radio_field_returns: "\<exists>b t. fill_radio_field rt self drv element v = (Inr b, t)"
  unfolding fill_radio_field_def by (intro try_except_total handler_total)

lemma fill_dropdown_field_returns:
  "\<exists>b t. fill_dropdown_field rt self drv element v = (Inr b, t)"
  unfolding fill_dropdown_field_def by (intro try_except_total handler_total)

lemma fill_text_field_returns: "\<exists>b t. fill_text_field rt drv element v = (Inr b, t)"
  unfolding fill_text_field_def by (intro try_except_total handler_total)



section \<open>The widget classifier\<close>

lemma try_seq_find_elements:
  "try_except (seq (find_elements el xpath) f) h =
     (case on_find_elements el xpath of
        Inl err \<Rightarrow> h (selenium err)
      | Inr found \<Rightarrow> try_except (f found) h)"
  by (cases "on_find_elements el xpath"; cases "h (selenium (projl (on_find_elements el xpath)))")
     (simp_all add: find_elements_def throw_def ret_def seq_Inr seq_Inl try_except_Inl)

lemma try_except_if:
  "try_except (if c then a else b) h = (if c then try_except a h else try_except b h)"
  by simp

lemma try_except_ret: "try_except (ret x) h = ret x"
  by (simp add: ret_def try_except_Inr)

lemma case_sum_ret:
  "(case r of Inl err \<Rightarrow> ret a | Inr found \<Rightarrow> ret (g found)) =
   ret (case r of Inl err \<Rightarrow> a | Inr found \<Rightarrow> g found)"
  by (cases r) simp_all

lemma if_ret: "(if c then ret a else ret b) = ret (if c then a else b)"
  by simp

lemma get_field_type_first_marker: "get_field_type el = ret (first_marker el markers)"
  unfolding get_field_type_def markers_def first_marker.simps
    try_seq_find_elements try_except_if try_except_ret if_ret case_sum_ret
  by (rule refl)

lemma first_marker_present:
  assumes "\<forall>p \<in> set pre. absent el (fst p)" and "present el xpath"
  shows "first_marker el (pre @ (xpath, ty) # post) = ty"
  using assms
  by (induction pre) (auto simp: absent_def present_def split: sum.splits list.splits)

lemma first_marker_absent:
  assumes "\<forall>p \<in> set ms. absent el (fst p)"
  shows "first_marker el ms = ''text''"
  using assms by (induction ms) (auto simp: absent_def)

lemma first_marker_fails:
  assumes "\<forall>p \<in> set pre. absent el (fst p)" and "probe_fails el xpath"
  shows "first_marker el (pre @ (xpath, ty) # post) = ''text''"
  using assms
  by (induction pre) (auto simp: absent_def probe_fails_def split: sum.splits list.splits)

text \<open>
  Claim C5. \<open>get_field_type\<close> searches the markers in the order radio, checkbox, date,
  listbox (dropdown), textarea, text input. It answers the type of the first marker that
  is present (all markers before it being absent), and \<open>"text"\<close> when none is present.
  A search that raises, the markers before it being absent, gives \<open>"text"\<close> as well, so
  the function always returns a type and raises nothing. In particular a container with
  a radio marker is a radio, whatever else it holds.
\<close>

theorem get_field_type_priority:
  "(\<forall>pre xpath ty post.
      markers = pre @ (xpath, ty) # post \<and> (\<forall>p \<in> set pre. absent element (fst p))
      \<and> present element xpath \<longrightarrow> get_field_type element = ret ty)
   \<and> ((\<forall>p \<in> set markers. absent element (fst p)) \<longrightarrow> get_field_type element = ret ''text'')
   \<and> (\<forall>pre xpath ty post.
      markers = pre @ (xpath, ty) # post \<and> (\<forall>p \<in> set pre. absent element (fst p))
      \<and> probe_fails element xpath \<longrightarrow> get_field_type element = ret ''text'')
   \<and> (present element xp_radio \<longrightarrow> get_field_type element = ret ''radio'')
   \<and> (\<exists>ty. get_field_type element = ret ty)"
proof (intro conjI allI impI)
  fix pre xpath ty post
  assume "markers = pre @ (xpath, ty) # post \<and> (\<forall>p \<in> set pre. absent element (fst p))
      \<and> present element xpath"
  then have "first_marker element markers = ty"
    using first_marker_present [of pre element xpath ty post] by metis
  then show "get_field_type element = ret ty"
    by (simp add: get_field_type_first_marker)
next
  assume "\<forall>p \<in> set markers. absent element (fst p)"
  then show "get_field_type element = ret ''text''"
    by (simp add: get_field_type_first_marker first_marker_absent)
next
  fix pre xpath ty post
  assume "markers = pre @ (xpath, ty) # post \<and> (\<forall>p \<in> set pre. absent element (fst p))
      \<and> probe_fails element xpath"
  then have "first_marker element markers = ''text''"
    using first_marker_fails [of pre element xpath ty post] by metis
  then show "get_field_type element = ret ''text''"
    by (simp add: get_field_type_first_marker)
next
  assume "present element xp_radio"
  then have "first_marker element ([] @ (xp_radio, ''radio'') # tl markers) = ''radio''"
    by (intro first_marker_present) simp_all
  then show "get_field_type element = ret ''radio''"
    by (simp add: get_field_type_first_marker markers_def)
next
  show "\<exists>ty. get_field_type element = ret ty"
    unfolding get_field_type_first_marker by blast
qed

lemma xp_distinct:
  "xp_radio \<noteq> xp_checkbox" "xp_radio \<noteq> xp_date" "xp_checkbox \<noteq> xp_date"
  "xp_text \<noteq> xp_radio" "xp_radio \<noteq> xp_text"
  by (simp_all add: xp_radio_def xp_checkbox_def xp_date_def xp_text_def)

theorem get_field_type_priority_witness:
  "present radio_and_text xp_radio \<and> present radio_and_text xp_text
   \<and> get_field_type radio_and_text = ret ''radio''
   \<and> absent date_widget xp_radio \<and> absent date_widget xp_checkbox \<and> present date_widget xp_date
   \<and> get_field_type date_widget = ret ''date''
   \<and> get_field_type (leaf []) = ret ''text''
   \<and> probe_fails broken xp_radio \<and> get_field_type broken = ret ''text''"
proof -
  note c = get_field_type_priority
  have r: "present radio_and_text xp_radio" "present radio_and_text xp_text"
    by (simp_all add: present_def radio_and_text_def xp_distinct)
  from c [of radio_and_text] r(1)
  have 1: "get_field_type radio_and_text = ret ''radio''" by blast
  have d: "absent date_widget xp_radio" "absent date_widget xp_checkbox"
    "present date_widget xp_date"
    by (simp_all add: present_def absent_def date_widget_def xp_distinct)
  have m: "markers = [(xp_radio, ''radio''), (xp_checkbox, ''checkbox'')] @ (xp_date, ''date'') #
     [(xp_listbox, ''dropdown''), (xp_textarea, ''textarea''), (xp_text, ''text'')]"
    by (simp add: markers_def)
  have pre: "\<forall>p \<in> set [(xp_radio, ''radio''), (xp_checkbox, ''checkbox'')]. absent date_widget (fst p)"
    using d by simp
  from c [of date_widget] m pre d(3)
  have 2: "get_field_type date_widget = ret ''date''" by blast
  have "\<forall>p \<in> set markers. absent (leaf []) (fst p)"
    by (simp add: absent_def leaf_def)
  with c [of "leaf []"] have 3: "get_field_type (leaf []) = ret ''text''" by blast
  have b: "probe_fails broken xp_radio" by (simp add: probe_fails_def broken_def)
  have m0: "markers = [] @ (xp_radio, ''radio'') # tl markers" by (simp add: markers_def)
  have "\<forall>p \<in> set []. absent broken (fst p)" by simp
  with c [of broken] m0 b have 4: "get_field_type broken = ret ''text''" by blast
  from r 1 d 2 3 b 4 show ?thesis by simp
qed

section \<open>The text strategy\<close>

lemma input_loop_skip:
  "absent el xpath \<Longrightarrow> input_loop rt el v (xpath # rest) = input_loop rt el v rest"
  by (simp add: absent_def find_element_def io_simps)

lemma input_loop_absent:
  "\<forall>p \<in> set xs. absent el p \<Longrightarrow> input_loop rt el v xs = (Inr False, [])"
  by (induction xs) (simp_all add: input_loop_skip ret_def del: input_loop.simps(2))

lemma input_loop_skip_prefix:
  "\<forall>p \<in> set pre. absent el p \<Longrightarrow> input_loop rt el v (pre @ rest) = input_loop rt el v rest"
  by (induction pre) (simp_all add: input_loop_skip del: input_loop.simps(2))

lemma input_loop_write:
  assumes "on_find_elements el xpath = Inr (f # fs)" and "writable f v"
  shows "input_loop rt el v (xpath # rest) = (Inr True, [Clear f, SendKeys f v])"
  using assms by (simp add: writable_def io_simps selenium_simps)

lemma input_loop_clear_raises:
  assumes "on_find_elements el xpath = Inr (f # fs)"
    and "on_clear f = Some (WebDriverException, m)"
  shows "input_loop rt el v (xpath # rest) = (Inl (SeleniumError WebDriverException m), [])"
  using assms by (simp add: io_simps selenium_simps)

lemma input_loop_send_keys_raises:
  assumes "on_find_elements el xpath = Inr (f # fs)"
    and "on_clear f = None" and "on_send_keys f v = Some (WebDriverException, m)"
  shows "input_loop rt el v (xpath # rest) = (Inl (SeleniumError WebDriverException m), [Clear f])"
  using assms by (simp add: io_simps selenium_simps)

lemma input_loop_search_raises:
  assumes "on_find_elements el xpath = Inl (WebDriverException, m)"
  shows "input_loop rt el v (xpath # rest) = (Inl (SeleniumError WebDriverException m), [])"
  using assms by (simp add: io_simps selenium_simps)

lemma input_loop_calm:
  "\<forall>p \<in> set xs. calm el v p \<Longrightarrow> fst (input_loop rt el v xs) = Inr (\<exists>p \<in> set xs. \<not> absent el p)"
proof (induction xs)
  case Nil
  show ?case by (simp add: ret_def)
next
  case (Cons x xs)
  then have calm: "calm el v x" and rest: "\<forall>p \<in> set xs. calm el v p" by simp_all
  show ?case
  proof (cases "on_find_elements el x")
    case (Inl err)
    with calm show ?thesis by (simp add: calm_def)
  next
    case (Inr found)
    show ?thesis
    proof (cases found)
      case Nil
      with Inr have "absent el x" by (simp add: absent_def)
      with Cons.IH [OF rest] show ?thesis
        by (simp add: input_loop_skip del: input_loop.simps(2))
    next
      case (Cons f fs)
      with Inr calm have w: "writable f v" by (simp add: calm_def)
      from Inr Cons have "\<not> absent el x" by (simp add: absent_def)
      with input_loop_write [where el = el and xpath = x and f = f and fs = fs and v = v and rt = rt and rest = xs] Inr Cons w
      show ?thesis by auto
    qed
  qed
qed

lemma fill_text_field_Inr:
  "input_loop rt el v input_types = (Inr b, t) \<Longrightarrow> fill_text_field rt drv el v = (Inr b, t)"
  by (simp add: fill_text_field_def try_except_Inr)

lemma fill_text_field_Inl:
  "input_loop rt el v input_types = (Inl e, t) \<Longrightarrow>
   fill_text_field rt drv el v = (Inr False, t @ [Print (''Error filling text field: '' @ msg e)])"
  by (simp add: fill_text_field_def try_except_Inl print_then_ret)

text \<open>
  Claim C9, as the code has it. \<open>fill_text_field\<close> tries the selectors in the order
  text-typed input, any input, textarea. With the first selector that finds an element
  (the selectors before it finding none), it clears that element, writes the value and
  returns \<open>True\<close>, provided both commands go through. It returns \<open>False\<close> when no selector
  finds an element; when no search raises and every first element found can be written,
  this is the only way to \<open>False\<close>. It also returns \<open>False\<close> when that first selector's
  search, the clearing of the element found or the writing into it raises an error other
  than \<open>NoSuchElementException\<close>.
\<close>

theorem fill_text_field_first_found:
  "input_types = [xp_text, xp_input, xp_textarea]
   \<and> (\<forall>pre xpath post f fs.
        input_types = pre @ xpath # post \<and> (\<forall>p \<in> set pre. absent element p)
        \<and> on_find_elements element xpath = Inr (f # fs) \<and> writable f v
        \<longrightarrow> fill_text_field rt drv element v = (Inr True, [Clear f, SendKeys f v]))
   \<and> ((\<forall>p \<in> set input_types. absent element p) \<longrightarrow> fill_text_field rt drv element v = (Inr False, []))
   \<and> ((\<forall>p \<in> set input_types. calm element v p) \<and> fst (fill_text_field rt drv element v) = Inr False
        \<longrightarrow> (\<forall>p \<in> set input_types. absent element p))
   \<and> (\<forall>pre xpath post f fs m.
        input_types = pre @ xpath # post \<and> (\<forall>p \<in> set pre. absent element p)
        \<and> on_find_elements element xpath = Inr (f # fs)
        \<and> on_clear f = None \<and> on_send_keys f v = Some (WebDriverException, m)
        \<longrightarrow> fill_text_field rt drv element v =
              (Inr False, [Clear f, Print (''Error filling text field: '' @ m)]))
   \<and> (\<forall>pre xpath post f fs m.
        input_types = pre @ xpath # post \<and> (\<forall>p \<in> set pre. absent element p)
        \<and> on_find_elements element xpath = Inr (f # fs)
        \<and> on_clear f = Some (WebDriverException, m)
        \<longrightarrow> fill_text_field rt drv element v =
              (Inr False, [Print (''Error filling text field: '' @ m)]))
   \<and> (\<forall>pre xpath post m.
        input_types = pre @ xpath # post \<and> (\<forall>p \<in> set pre. absent element p)
        \<and> on_find_elements element xpath = Inl (WebDriverException, m)
        \<longrightarrow> fill_text_field rt drv element v =
              (Inr False, [Print (''Error filling text field: '' @ m)]))"
proof (intro conjI allI impI)
  show "input_types = [xp_text, xp_input, xp_textarea]" by (rule input_types_def)
next
  fix pre xpath post f fs
  assume a: "input_types = pre @ xpath # post \<and> (\<forall>p \<in> set pre. absent element p)
        \<and> on_find_elements element xpath = Inr (f # fs) \<and> writable f v"
  then have split: "input_types = pre @ xpath # post"
    and pre: "\<forall>p \<in> set pre. absent element p"
    and found: "on_find_elements element xpath = Inr (f # fs)" and w: "writable f v"
    by simp_all
  have "input_loop rt element v (pre @ xpath # post) = (Inr True, [Clear f, SendKeys f v])"
    using pre found w by (simp add: input_loop_skip_prefix input_loop_write del: input_loop.simps(2))
  then have "input_loop rt element v input_types = (Inr True, [Clear f, SendKeys f v])"
    unfolding split .
  then show "fill_text_field rt drv element v = (Inr True, [Clear f, SendKeys f v])"
    by (rule fill_text_field_Inr)
next
  assume "\<forall>p \<in> set input_types. absent element p"
  then have "input_loop rt element v input_types = (Inr False, [])" by (rule input_loop_absent)
  then show "fill_text_field rt drv element v = (Inr False, [])" by (rule fill_text_field_Inr)
next
  assume a: "(\<forall>p \<in> set input_types. calm element v p) \<and> fst (fill_text_field rt drv element v) = Inr False"
  then have l: "fst (input_loop rt element v input_types) = Inr (\<exists>p \<in> set input_types. \<not> absent element p)"
    by (intro input_loop_calm) simp
  then have "fill_text_field rt drv element v =
      (Inr (\<exists>p \<in> set input_types. \<not> absent element p), snd (input_loop rt element v input_types))"
    by (intro fill_text_field_Inr io_eqI) simp_all
  with a show "\<forall>p \<in> set input_types. absent element p" by simp
next
  fix pre xpath post f fs m
  assume a: "input_types = pre @ xpath # post \<and> (\<forall>p \<in> set pre. absent element p)
        \<and> on_find_elements element xpath = Inr (f # fs)
        \<and> on_clear f = None \<and> on_send_keys f v = Some (WebDriverException, m)"
  then have split: "input_types = pre @ xpath # post"
    and pre: "\<forall>p \<in> set pre. absent element p"
    and found: "on_find_elements element xpath = Inr (f # fs)"
    and c: "on_clear f = None" and k: "on_send_keys f v = Some (WebDriverException, m)"
    by simp_all
  have "input_loop rt element v (pre @ xpath # post) =
      (Inl (SeleniumError WebDriverException m), [Clear f])"
    using pre found c k by (simp add: input_loop_skip_prefix input_loop_send_keys_raises del: input_loop.simps(2))
  then have "input_loop rt element v input_types =
      (Inl (SeleniumError WebDriverException m), [Clear f])"
    unfolding split .
  from fill_text_field_Inl [OF this]
  show "fill_text_field rt drv element v = (Inr False, [Clear f, Print (''Error filling text field: '' @ m)])"
    by simp
next
  fix pre xpath post f fs m
  assume a: "input_types = pre @ xpath # post \<and> (\<forall>p \<in> set pre. absent element p)
        \<and> on_find_elements element xpath = Inr (f # fs)
        \<and> on_clear f = Some (WebDriverException, m)"
  then have split: "input_types = pre @ xpath # post"
    and pre: "\<forall>p \<in> set pre. absent element p"
    and found: "on_find_elements element xpath = Inr (f # fs)"
    and c: "on_clear f = Some (WebDriverException, m)"
    by simp_all
  have "input_loop rt element v (pre @ xpath # post) =
      (Inl (SeleniumError WebDriverException m), [])"
    using pre found c by (simp add: input_loop_skip_prefix input_loop_clear_raises del: input_loop.simps(2))
  then have "input_loop rt element v input_types = (Inl (SeleniumError WebDriverException m), [])"
    unfolding split .
  from fill_text_field_Inl [OF this]
  show "fill_text_field rt drv element v = (Inr False, [Print (''Error filling text field: '' @ m)])"
    by simp
next
  fix pre xpath post m
  assume a: "input_types = pre @ xpath # post \<and> (\<forall>p \<in> set pre. absent element p)
        \<and> on_find_elements element xpath = Inl (WebDriverException, m)"
  then have split: "input_types = pre @ xpath # post"
    and pre: "\<forall>p \<in> set pre. absent element p"
    and raised: "on_find_elements element xpath = Inl (WebDriverException, m)"
    by simp_all
  have "input_loop rt element v (pre @ xpath # post) =
      (Inl (SeleniumError WebDriverException m), [])"
    using pre raised by (simp add: input_loop_skip_prefix input_loop_search_raises del: input_loop.simps(2))
  then have "input_loop rt element v input_types = (Inl (SeleniumError WebDriverException m), [])"
    unfolding split .
  from fill_text_field_Inl [OF this]
  show "fill_text_field rt drv element v = (Inr False, [Print (''Error filling text field: '' @ m)])"
    by simp
qed

text \<open>The claim as the specification words it says that \<open>False\<close> comes only when no
  selector finds an element. Here the first selector finds one, and the answer is
  \<open>False\<close>, because typing into it raises.\<close>

theorem fill_text_field_false_although_located:
  "present locked_field xp_text
   \<and> fill_text_field plain_runtime quiet_driver locked_field ''Ada Lovelace'' =
       (Inr False, [Clear locked_input, Print ''Error filling text field: element not interactable''])"
  by (simp add: present_def locked_field_def locked_input_def fill_text_field_def
      input_types_def io_simps selenium_simps)

lemma input_xp_distinct:
  "xp_text \<noteq> xp_textarea" "xp_input \<noteq> xp_textarea" "xp_input \<noteq> xp_text"
  by (simp_all add: xp_text_def xp_textarea_def xp_input_def)

theorem fill_text_field_first_found_witness:
  "absent textarea_field xp_text \<and> absent textarea_field xp_input
   \<and> on_find_elements textarea_field xp_textarea = Inr [leaf []]
   \<and> writable (leaf []) ''Ada Lovelace''
   \<and> fill_text_field plain_runtime quiet_driver textarea_field ''Ada Lovelace'' =
       (Inr True, [Clear (leaf []), SendKeys (leaf []) ''Ada Lovelace''])
   \<and> fill_text_field plain_runtime quiet_driver (leaf []) ''Ada Lovelace'' = (Inr False, [])
   \<and> calm (leaf []) ''Ada Lovelace'' xp_text \<and> calm (leaf []) ''Ada Lovelace'' xp_input
   \<and> calm (leaf []) ''Ada Lovelace'' xp_textarea
   \<and> absent (leaf []) xp_text \<and> absent (leaf []) xp_input \<and> absent (leaf []) xp_textarea
   \<and> on_find_elements locked_field xp_text = Inr [locked_input]
   \<and> on_clear locked_input = None
   \<and> on_send_keys locked_input ''Ada Lovelace'' = Some (WebDriverException, ''element not interactable'')
   \<and> fill_text_field plain_runtime quiet_driver locked_field ''Ada Lovelace'' =
       (Inr False, [Clear locked_input, Print ''Error filling text field: element not interactable''])
   \<and> on_find_elements frozen_field xp_text = Inr [frozen_input]
   \<and> on_clear frozen_input = Some (WebDriverException, ''invalid element state'')
   \<and> fill_text_field plain_runtime quiet_driver frozen_field ''Ada Lovelace'' =
       (Inr False, [Print ''Error filling text field: invalid element state''])
   \<and> on_find_elements broken xp_text = Inl (WebDriverException, ''stale element reference'')
   \<and> fill_text_field plain_runtime quiet_driver broken ''Ada Lovelace'' =
       (Inr False, [Print ''Error filling text field: stale element reference''])"
proof -
  note c = fill_text_field_first_found [where rt = plain_runtime and v = "''Ada Lovelace''"
      and drv = quiet_driver]
  note written = c [THEN conjunct2, THEN conjunct1, rule_format]
  note nowhere = c [THEN conjunct2, THEN conjunct2, THEN conjunct1, THEN mp]
  note only = c [THEN conjunct2, THEN conjunct2, THEN conjunct2, THEN conjunct1, THEN mp]
  note refused = c [THEN conjunct2, THEN conjunct2, THEN conjunct2, THEN conjunct2,
      THEN conjunct1, rule_format]
  note uncleared = c [THEN conjunct2, THEN conjunct2, THEN conjunct2, THEN conjunct2,
      THEN conjunct2, THEN conjunct1, rule_format]
  note unsearched = c [THEN conjunct2, THEN conjunct2, THEN conjunct2, THEN conjunct2,
      THEN conjunct2, THEN conjunct2, rule_format]
  have a: "absent textarea_field xp_text" "absent textarea_field xp_input"
    by (simp_all add: absent_def textarea_field_def input_xp_distinct)
  have f: "on_find_elements textarea_field xp_textarea = Inr [leaf []]"
    by (simp add: textarea_field_def)
  have w: "writable (leaf []) ''Ada Lovelace''" by (simp add: writable_def leaf_def)
  have split: "input_types = [xp_text, xp_input] @ xp_textarea # []"
    by (simp add: input_types_def)
  have pre: "\<forall>p \<in> set [xp_text, xp_input]. absent textarea_field p" using a by simp
  have 1: "fill_text_field plain_runtime quiet_driver textarea_field ''Ada Lovelace'' =
       (Inr True, [Clear (leaf []), SendKeys (leaf []) ''Ada Lovelace''])"
    apply (rule written)
    apply (intro conjI)
       apply (rule split)
      apply (rule pre)
     apply (rule f)
    apply (rule w)
    done
  have none: "\<forall>p \<in> set input_types. absent (leaf []) p" by (simp add: absent_def leaf_def)
  then have 2: "fill_text_field plain_runtime quiet_driver (leaf []) ''Ada Lovelace'' = (Inr False, [])"
    by (rule nowhere)
  have k: "calm (leaf []) ''Ada Lovelace'' xp_text" "calm (leaf []) ''Ada Lovelace'' xp_input"
    "calm (leaf []) ''Ada Lovelace'' xp_textarea"
    by (simp_all add: calm_def leaf_def)
  then have "\<forall>p \<in> set input_types. calm (leaf []) ''Ada Lovelace'' p"
    by (simp add: input_types_def)
  moreover from 2 have "fst (fill_text_field plain_runtime quiet_driver (leaf []) ''Ada Lovelace'') = Inr False"
    by simp
  ultimately have "\<forall>p \<in> set input_types. absent (leaf []) p"
    by (intro only conjI)
  then have n: "absent (leaf []) xp_text" "absent (leaf []) xp_input"
    "absent (leaf []) xp_textarea"
    by (simp_all add: input_types_def)
  have l: "on_find_elements locked_field xp_text = Inr [locked_input]"
    "on_clear locked_input = None"
    "on_send_keys locked_input ''Ada Lovelace'' = Some (WebDriverException, ''element not interactable'')"
    by (simp_all add: locked_field_def locked_input_def)
  have split0: "input_types = [] @ xp_text # [xp_input, xp_textarea]"
    by (simp add: input_types_def)
  have pre0: "\<forall>p \<in> set []. absent el p" for el by simp
  have 3: "fill_text_field plain_runtime quiet_driver locked_field ''Ada Lovelace'' =
       (Inr False, [Clear locked_input, Print (''Error filling text field: '' @ ''element not interactable'')])"
    apply (rule refused)
    apply (intro conjI)
        apply (rule split0)
       apply (rule pre0)
      apply (rule l(1))
     apply (rule l(2))
    apply (rule l(3))
    done
  have z: "on_find_elements frozen_field xp_text = Inr [frozen_input]"
    "on_clear frozen_input = Some (WebDriverException, ''invalid element state'')"
    by (simp_all add: frozen_field_def frozen_input_def)
  have 4: "fill_text_field plain_runtime quiet_driver frozen_field ''Ada Lovelace'' =
       (Inr False, [Print (''Error filling text field: '' @ ''invalid element state'')])"
    apply (rule uncleared)
    apply (intro conjI)
       apply (rule split0)
      apply (rule pre0)
     apply (rule z(1))
    apply (rule z(2))
    done
  have b: "on_find_elements broken xp_text = Inl (WebDriverException, ''stale element reference'')"
    by (simp add: broken_def stale_def)
  have 5: "fill_text_field plain_runtime quiet_driver broken ''Ada Lovelace'' =
       (Inr False, [Print (''Error filling text field: '' @ ''stale element reference'')])"
    apply (rule unsearched)
    apply (intro conjI)
      apply (rule split0)
     apply (rule pre0)
    apply (rule b)
    done
  from a f w 1 2 k n l 3 z 4 b 5 show ?thesis by simp
qed

section \<open>The choice strategies\<close>

lemma text_of_readable:
  "readable opt \<Longrightarrow> \<exists>s. text_of opt = Inr s \<and> shown_text rt opt = strip rt s"
  by (auto simp: readable_def shown_text_def split: sum.splits)

lemma exact_match_loop_none:
  "\<forall>p \<in> set opts. readable p \<and> \<not> exact_match rt v p \<Longrightarrow> exact_match_loop rt v opts = ret None"
proof (induction opts)
  case Nil
  show ?case by simp
next
  case (Cons a opts)
  then have "readable a" and n: "\<not> exact_match rt v a" by simp_all
  then obtain s where s: "text_of a = Inr s" "shown_text rt a = strip rt s"
    using text_of_readable by blast
  with n Cons show ?case by (simp add: get_text_def exact_match_def io_simps)
qed


lemma partial_match_loop_none:
  "\<forall>p \<in> set opts. readable p \<and> \<not> partial_match rt v p \<Longrightarrow> partial_match_loop rt v opts = ret None"
proof (induction opts)
  case Nil
  show ?case by simp
next
  case (Cons a opts)
  then have "readable a" and n: "\<not> partial_match rt v a" by simp_all
  then obtain s where s: "text_of a = Inr s" "shown_text rt a = strip rt s"
    using text_of_readable by blast
  with n Cons show ?case by (simp add: get_text_def partial_match_def io_simps)
qed


lemma semantic_match_loop_none:
  "\<forall>p \<in> set opts. readable p \<and> score rt self v p \<le> 0.7 \<Longrightarrow>
   semantic_match_loop rt self v opts = ret None"
proof (induction opts)
  case Nil
  show ?case by simp
next
  case (Cons a opts)
  then have "readable a" and n: "score rt self v a \<le> 0.7" by simp_all
  then obtain s where s: "text_of a = Inr s" "shown_text rt a = strip rt s"
    using text_of_readable by blast
  with n Cons show ?case by (simp add: get_text_def score_def io_simps)
qed

lemma semantic_match_loop_first:
  assumes "\<forall>p \<in> set pre. readable p \<and> score rt self v p \<le> 0.7"
    and "readable opt" and "score rt self v opt > 0.7"
  shows "semantic_match_loop rt self v (pre @ opt # post) = click_then opt (Some True)"
  using assms(1)
proof (induction pre)
  case Nil
  from assms(2) obtain s where s: "text_of opt = Inr s" "shown_text rt opt = strip rt s"
    using text_of_readable by blast
  with assms(3) show ?case by (simp add: get_text_def score_def io_simps click_then_def)
next
  case (Cons a pre)
  then have "readable a" and n: "score rt self v a \<le> 0.7" by simp_all
  then obtain s where s: "text_of a = Inr s" "shown_text rt a = strip rt s"
    using text_of_readable by blast
  with n Cons show ?case by (simp add: get_text_def score_def io_simps)
qed


lemma closest_loop_low:
  "\<forall>p \<in> set opts. readable p \<and> score rt self v p \<le> bs \<Longrightarrow>
   closest_loop rt self v opts (bm, bs) = ret (bm, bs)"
proof (induction opts)
  case Nil
  show ?case by simp
next
  case (Cons a opts)
  then have "readable a" and n: "score rt self v a \<le> bs" by simp_all
  then obtain s where s: "text_of a = Inr s" "shown_text rt a = strip rt s"
    using text_of_readable by blast
  with n Cons show ?case by (simp add: get_text_def score_def io_simps)
qed

lemma closest_loop_first_best:
  assumes "\<forall>p \<in> set pre. readable p \<and> score rt self v p < score rt self v opt"
    and "readable opt"
    and "\<forall>p \<in> set post. readable p \<and> score rt self v p \<le> score rt self v opt"
    and "bs < score rt self v opt"
  shows "closest_loop rt self v (pre @ opt # post) (bm, bs) = ret (Some opt, score rt self v opt)"
  using assms(1,4)
proof (induction pre arbitrary: bm bs)
  case Nil
  from assms(2) obtain s where s: "text_of opt = Inr s" "shown_text rt opt = strip rt s"
    using text_of_readable by blast
  from Nil s have "closest_loop rt self v ([] @ opt # post) (bm, bs) =
      closest_loop rt self v post (Some opt, score rt self v opt)"
    by (simp add: get_text_def score_def io_simps)
  also have "\<dots> = ret (Some opt, score rt self v opt)"
    using assms(3) by (rule closest_loop_low)
  finally show ?case .
next
  case (Cons a pre)
  then have "readable a" and n: "score rt self v a < score rt self v opt" by simp_all
  then obtain s where s: "text_of a = Inr s" "shown_text rt a = strip rt s"
    using text_of_readable by blast
  let ?acc = "if score rt self v a > bs then (Some a, score rt self v a) else (bm, bs)"
  have step: "closest_loop rt self v ((a # pre) @ opt # post) (bm, bs) =
      closest_loop rt self v (pre @ opt # post) ?acc"
    using s by (simp add: get_text_def score_def io_simps)
  have rest: "\<forall>p \<in> set pre. readable p \<and> score rt self v p < score rt self v opt"
    using Cons.prems(1) by simp
  show ?case
  proof (cases "score rt self v a > bs")
    case True
    with step Cons.IH [OF rest n, of "Some a"] show ?thesis by simp
  next
    case False
    with step Cons.IH [OF rest Cons.prems(2), of bm] show ?thesis by simp
  qed
qed

lemma seq_click_then:
  "seq (click_then opt (Some b)) (\<lambda>r. case r of Some b \<Rightarrow> ret b | None \<Rightarrow> k) = click_then opt b"
  by (cases "on_click opt") (simp_all add: click_then_def click_def io_simps)

lemma seq_ret_None:
  "seq (ret None) (\<lambda>r. case r of Some b \<Rightarrow> ret b | None \<Rightarrow> k) = k"
  by (simp add: io_simps)



lemma choose_semantic:
  assumes "\<forall>p \<in> set (pre @ opt # post). readable p \<and> \<not> exact_match rt v p"
    and "\<forall>p \<in> set (pre @ opt # post). \<not> partial_match rt v p"
    and "\<forall>p \<in> set pre. score rt self v p \<le> 0.7" and "score rt self v opt > 0.7"
  shows "choose_option rt self v (pre @ opt # post) = click_then opt True"
proof -
  from assms(1,2) have np: "\<forall>p \<in> set (pre @ opt # post). readable p \<and> \<not> partial_match rt v p"
    by simp
  from assms(1,3) have pre: "\<forall>p \<in> set pre. readable p \<and> score rt self v p \<le> 0.7" by simp
  from assms(1) have r: "readable opt" by simp
  show ?thesis
    unfolding choose_option_def exact_match_loop_none [OF assms(1)] seq_ret_None
      partial_match_loop_none [OF np]
      semantic_match_loop_first [OF pre r assms(4)] seq_click_then ..
qed

lemma seq_closest:
  "seq (ret (Some opt, s)) (\<lambda>(best_match, best_similarity).
       case best_match of
         Some option \<Rightarrow>
           if best_similarity > 0.5 then seq (click option) (\<lambda>_. ret True) else ret False
       | None \<Rightarrow> ret False) = (if s > 0.5 then click_then opt True else ret False)"
  by (simp add: click_then_def io_simps)

lemma choose_closest:
  assumes "\<forall>p \<in> set (pre @ opt # post). readable p \<and> \<not> exact_match rt v p"
    and "\<forall>p \<in> set (pre @ opt # post). \<not> partial_match rt v p"
    and "\<forall>p \<in> set (pre @ opt # post). score rt self v p \<le> 0.7"
    and "\<forall>p \<in> set pre. score rt self v p < score rt self v opt"
    and "\<forall>p \<in> set post. score rt self v p \<le> score rt self v opt"
    and "score rt self v opt > 0.5"
  shows "choose_option rt self v (pre @ opt # post) = click_then opt True"
proof -
  from assms(1,2) have np: "\<forall>p \<in> set (pre @ opt # post). readable p \<and> \<not> partial_match rt v p"
    by simp
  from assms(1,3) have ns: "\<forall>p \<in> set (pre @ opt # post). readable p \<and> score rt self v p \<le> 0.7"
    by simp
  from assms(1,4) have pre: "\<forall>p \<in> set pre. readable p \<and> score rt self v p < score rt self v opt"
    by simp
  from assms(1,5) have post: "\<forall>p \<in> set post. readable p \<and> score rt self v p \<le> score rt self v opt"
    by simp
  from assms(1) have r: "readable opt" by simp
  from assms(6) have pos: "0 < score rt self v opt" by simp
  show ?thesis
    unfolding choose_option_def exact_match_loop_none [OF assms(1)] seq_ret_None
      partial_match_loop_none [OF np] semantic_match_loop_none [OF ns]
      closest_loop_first_best [OF pre r post pos] seq_closest
    using assms(6) by simp
qed

lemma closest_loop_small:
  assumes "\<forall>p \<in> set opts. readable p \<and> score rt self v p \<le> 0.5" and "bs \<le> 0.5"
  shows "\<exists>bm' bs'. closest_loop rt self v opts (bm, bs) = ret (bm', bs') \<and> bs' \<le> 0.5"
  using assms
proof (induction opts arbitrary: bm bs)
  case Nil
  then show ?case by (intro exI [of _ bm] exI [of _ bs]) simp
next
  case (Cons a opts)
  then have "readable a" and n: "score rt self v a \<le> 0.5" by simp_all
  then obtain s where s: "text_of a = Inr s" "shown_text rt a = strip rt s"
    using text_of_readable by blast
  let ?acc = "if score rt self v a > bs then (Some a, score rt self v a) else (bm, bs)"
  have step: "closest_loop rt self v (a # opts) (bm, bs) = closest_loop rt self v opts ?acc"
    using s by (simp add: get_text_def score_def io_simps)
  have rest: "\<forall>p \<in> set opts. readable p \<and> score rt self v p \<le> 0.5"
    using Cons.prems(1) by simp
  show ?case
  proof (cases "score rt self v a > bs")
    case True
    with step Cons.IH [OF rest n, of "Some a"] show ?thesis by simp
  next
    case False
    with step Cons.IH [OF rest Cons.prems(2), of bm] show ?thesis by simp
  qed
qed

lemma choose_nothing:
  assumes "\<forall>p \<in> set opts. readable p \<and> \<not> exact_match rt v p"
    and "\<forall>p \<in> set opts. \<not> partial_match rt v p"
    and "\<forall>p \<in> set opts. score rt self v p \<le> 0.5"
  shows "choose_option rt self v opts = ret False"
proof -
  from assms(1,2) have np: "\<forall>p \<in> set opts. readable p \<and> \<not> partial_match rt v p" by simp
  from assms(1,3) have ns: "\<forall>p \<in> set opts. readable p \<and> score rt self v p \<le> 0.7"
    by fastforce
  from assms(1,3) have nb: "\<forall>p \<in> set opts. readable p \<and> score rt self v p \<le> 0.5" by simp
  from closest_loop_small [OF nb, of 0 None] obtain bm' bs'
    where c: "closest_loop rt self v opts (None, 0) = ret (bm', bs')" and le: "bs' \<le> 0.5"
    by auto
  show ?thesis
    unfolding choose_option_def exact_match_loop_none [OF assms(1)] seq_ret_None
      partial_match_loop_none [OF np] semantic_match_loop_none [OF ns] c
    using le by (simp add: io_simps split: option.splits)
qed


lemma try_click_then:
  "try_except (click_then opt True) (\<lambda>e. seq (print (label @ msg e)) (\<lambda>_. ret False)) =
   decides label [] opt"
  by (cases "on_click opt")
     (simp_all add: click_then_def click_def decides_def io_simps)

lemma fill_radio_field_options:
  "radio_options element opts \<Longrightarrow>
   fill_radio_field rt self drv element v =
     try_except (choose_option rt self v opts)
       (\<lambda>e. seq (print (''Error filling radio field: '' @ msg e)) (\<lambda>_. ret False))"
  by (simp add: radio_options_def fill_radio_field_def find_elements_def io_simps)

lemma radio_decides:
  assumes "radio_options element opts" and "choose_option rt self v opts = click_then opt True"
  shows "fill_radio_field rt self drv element v = decides ''Error filling radio field: '' [] opt"
  unfolding fill_radio_field_options [OF assms(1)] assms(2) try_click_then ..

lemma radio_nothing:
  assumes "radio_options element opts" and "choose_option rt self v opts = ret False"
  shows "fill_radio_field rt self drv element v = (Inr False, [])"
  unfolding fill_radio_field_options [OF assms(1)] assms(2) by (simp add: io_simps)

lemma fill_dropdown_field_options:
  assumes "dropdown_options drv element dropdown opts"
  shows "fill_dropdown_field rt self drv element v =
     try_except (seq (emit (Click dropdown)) (\<lambda>_. choose_option rt self v opts))
       (\<lambda>e. seq (print (''Error filling dropdown field: '' @ msg e)) (\<lambda>_. ret False))"
proof -
  from assms obtain found where f: "on_find_elements element xp_listbox = Inr found"
    and ne: "found \<noteq> []" and hd: "hd found = dropdown"
    and c: "on_click dropdown = None" and o: "on_find_elements (page drv) xp_option = Inr opts"
    by (auto simp: dropdown_options_def split: sum.splits)
  from ne hd obtain rest where "found = dropdown # rest" by (cases found) auto
  with f c o show ?thesis
    by (simp add: fill_dropdown_field_def find_element_def find_elements_def click_def io_simps)
qed

lemma try_emit_click_then:
  "try_except (seq (emit ev) (\<lambda>_. click_then opt True))
     (\<lambda>e. seq (print (label @ msg e)) (\<lambda>_. ret False)) =
   decides label [ev] opt"
  by (cases "on_click opt")
     (simp_all add: click_then_def click_def decides_def io_simps)

lemma dropdown_decides:
  assumes "dropdown_options drv element dropdown opts"
    and "choose_option rt self v opts = click_then opt True"
  shows "fill_dropdown_field rt self drv element v =
     decides ''Error filling dropdown field: '' [Click dropdown] opt"
  unfolding fill_dropdown_field_options [OF assms(1)] assms(2) try_emit_click_then ..

lemma dropdown_nothing:
  assumes "dropdown_options drv element dropdown opts" and "choose_option rt self v opts = ret False"
  shows "fill_dropdown_field rt self drv element v = (Inr False, [Click dropdown])"
  unfolding fill_dropdown_field_options [OF assms(1)] assms(2) by (simp add: io_simps)

lemma exact_match_loop_unreadable:
  assumes "\<forall>p \<in> set pre. readable p \<and> \<not> exact_match rt v p" and "text_of opt = Inl err"
  shows "exact_match_loop rt v (pre @ opt # post) = throw (selenium err)"
  using assms(1)
proof (induction pre)
  case Nil
  from assms(2) show ?case by (simp add: get_text_def seq_throw)
next
  case (Cons a pre)
  then have "readable a" and n: "\<not> exact_match rt v a" by simp_all
  then obtain s where s: "text_of a = Inr s" "shown_text rt a = strip rt s"
    using text_of_readable by blast
  with n Cons show ?case by (simp add: get_text_def exact_match_def seq_ret)
qed

lemma choose_unreadable:
  assumes "\<forall>p \<in> set pre. readable p \<and> \<not> exact_match rt v p" and "text_of opt = Inl err"
  shows "choose_option rt self v (pre @ opt # post) = throw (selenium err)"
  unfolding choose_option_def exact_match_loop_unreadable [OF assms] seq_throw ..

lemma radio_unreadable:
  assumes "radio_options element opts" and "choose_option rt self v opts = throw (selenium err)"
  shows "fill_radio_field rt self drv element v =
     (Inr False, [Print (''Error filling radio field: '' @ snd err)])"
  unfolding fill_radio_field_options [OF assms(1)] assms(2) by (simp add: io_simps)

lemma dropdown_unreadable:
  assumes "dropdown_options drv element dropdown opts"
    and "choose_option rt self v opts = throw (selenium err)"
  shows "fill_dropdown_field rt self drv element v =
     (Inr False, [Click dropdown, Print (''Error filling dropdown field: '' @ snd err)])"
  unfolding fill_dropdown_field_options [OF assms(1)] assms(2) by (simp add: io_simps)


lemmas text_simps =
  readable_def shown_text_def exact_match_def partial_match_def leaf_def strip_def
  is_space_def lower_def lower_char_def is_ascii_def

lemmas score_simps =
  score_def similarity_def shown_text_def leaf_def strip_def is_space_def is_ascii_def
  ada_def init_def length_model_def

lemma radio_field_options: "radio_options (radio_field texts) (map leaf texts)"
  by (simp add: radio_options_def radio_field_def)

lemma dropdown_field_options:
  "dropdown_options (options_driver texts) dropdown_field (leaf ''Choose'') (map leaf texts)"
  by (simp add: dropdown_options_def dropdown_field_def options_driver_def leaf_def)

lemma radio_of_options: "radio_options (radio_of opts) opts"
  by (simp add: radio_options_def radio_of_def)

lemma options_page_options:
  "dropdown_options (options_page opts) dropdown_field (leaf ''Choose'') opts"
  by (simp add: dropdown_options_def dropdown_field_def options_page_def leaf_def)



text \<open>
  Claim C4. With no exact and no partial match among the options (for a dropdown, its
  control was found and opened): when some option scores above \<open>0.7\<close>, the first such
  option is the one clicked; when none does, the best-scoring option (the first, among
  equals) is clicked provided that its score is above \<open>0.5\<close>; when every score is at
  most \<open>0.5\<close>, nothing is clicked and the answer is \<open>False\<close>. The answer is \<open>True\<close>
  when the click goes through and \<open>False\<close>, with nothing selected, when it raises; it is
  also \<open>False\<close>, with nothing selected, when the text of an option cannot be read.
\<close>

theorem choice_semantic_fallback:
  "(\<forall>opts pre opt post.
      radio_options element opts
      \<and> (\<forall>p \<in> set opts. readable p \<and> \<not> exact_match rt v p \<and> \<not> partial_match rt v p)
      \<and> opts = pre @ opt # post
      \<and> (\<forall>p \<in> set pre. score rt self v p \<le> 0.7) \<and> score rt self v opt > 0.7
      \<longrightarrow> fill_radio_field rt self drv element v = decides ''Error filling radio field: '' [] opt)
   \<and> (\<forall>opts pre opt post.
      radio_options element opts
      \<and> (\<forall>p \<in> set opts. readable p \<and> \<not> exact_match rt v p \<and> \<not> partial_match rt v p)
      \<and> (\<forall>p \<in> set opts. score rt self v p \<le> 0.7)
      \<and> opts = pre @ opt # post
      \<and> (\<forall>p \<in> set pre. score rt self v p < score rt self v opt)
      \<and> (\<forall>p \<in> set post. score rt self v p \<le> score rt self v opt)
      \<and> score rt self v opt > 0.5
      \<longrightarrow> fill_radio_field rt self drv element v = decides ''Error filling radio field: '' [] opt)
   \<and> (\<forall>opts.
      radio_options element opts
      \<and> (\<forall>p \<in> set opts. readable p \<and> \<not> exact_match rt v p \<and> \<not> partial_match rt v p)
      \<and> (\<forall>p \<in> set opts. score rt self v p \<le> 0.5)
      \<longrightarrow> fill_radio_field rt self drv element v = (Inr False, []))
   \<and> (\<forall>dropdown opts pre opt post.
      dropdown_options drv element dropdown opts
      \<and> (\<forall>p \<in> set opts. readable p \<and> \<not> exact_match rt v p \<and> \<not> partial_match rt v p)
      \<and> opts = pre @ opt # post
      \<and> (\<forall>p \<in> set pre. score rt self v p \<le> 0.7) \<and> score rt self v opt > 0.7
      \<longrightarrow> fill_dropdown_field rt self drv element v =
            decides ''Error filling dropdown field: '' [Click dropdown] opt)
   \<and> (\<forall>dropdown opts pre opt post.
      dropdown_options drv element dropdown opts
      \<and> (\<forall>p \<in> set opts. readable p \<and> \<not> exact_match rt v p \<and> \<not> partial_match rt v p)
      \<and> (\<forall>p \<in> set opts. score rt self v p \<le> 0.7)
      \<and> opts = pre @ opt # post
      \<and> (\<forall>p \<in> set pre. score rt self v p < score rt self v opt)
      \<and> (\<forall>p \<in> set post. score rt self v p \<le> score rt self v opt)
      \<and> score rt self v opt > 0.5
      \<longrightarrow> fill_dropdown_field rt self drv element v =
            decides ''Error filling dropdown field: '' [Click dropdown] opt)
   \<and> (\<forall>dropdown opts.
      dropdown_options drv element dropdown opts
      \<and> (\<forall>p \<in> set opts. readable p \<and> \<not> exact_match rt v p \<and> \<not> partial_match rt v p)
      \<and> (\<forall>p \<in> set opts. score rt self v p \<le> 0.5)
      \<longrightarrow> fill_dropdown_field rt self drv element v = (Inr False, [Click dropdown]))
   \<and> (\<forall>opt. (on_click opt = None \<longrightarrow>
              decides ''Error filling radio field: '' [] opt = (Inr True, [Click opt])
              \<and> decides ''Error filling dropdown field: '' [Click dropdown] opt =
                  (Inr True, [Click dropdown, Click opt]))
          \<and> (\<forall>c m. on_click opt = Some (c, m) \<longrightarrow>
              decides ''Error filling radio field: '' [] opt =
                (Inr False, [Print (''Error filling radio field: '' @ m)])
              \<and> decides ''Error filling dropdown field: '' [Click dropdown] opt =
                  (Inr False, [Click dropdown, Print (''Error filling dropdown field: '' @ m)])))
   \<and> (\<forall>opts pre opt post c m.
      radio_options element opts \<and> opts = pre @ opt # post
      \<and> (\<forall>p \<in> set pre. readable p \<and> \<not> exact_match rt v p) \<and> text_of opt = Inl (c, m)
      \<longrightarrow> fill_radio_field rt self drv element v =
            (Inr False, [Print (''Error filling radio field: '' @ m)]))
   \<and> (\<forall>dropdown opts pre opt post c m.
      dropdown_options drv element dropdown opts \<and> opts = pre @ opt # post
      \<and> (\<forall>p \<in> set pre. readable p \<and> \<not> exact_match rt v p) \<and> text_of opt = Inl (c, m)
      \<longrightarrow> fill_dropdown_field rt self drv element v =
            (Inr False, [Click dropdown, Print (''Error filling dropdown field: '' @ m)]))"
proof -
  have semantic: "choose_option rt self v (pre @ opt # post) = click_then opt True"
    if "\<forall>p \<in> set (pre @ opt # post). readable p \<and> \<not> exact_match rt v p \<and> \<not> partial_match rt v p"
      and "\<forall>p \<in> set pre. score rt self v p \<le> 0.7" and "score rt self v opt > 0.7"
    for pre opt post
    using that by (intro choose_semantic) simp_all
  have closest: "choose_option rt self v (pre @ opt # post) = click_then opt True"
    if "\<forall>p \<in> set (pre @ opt # post). readable p \<and> \<not> exact_match rt v p \<and> \<not> partial_match rt v p"
      and "\<forall>p \<in> set (pre @ opt # post). score rt self v p \<le> 0.7"
      and "\<forall>p \<in> set pre. score rt self v p < score rt self v opt"
      and "\<forall>p \<in> set post. score rt self v p \<le> score rt self v opt"
      and "score rt self v opt > 0.5"
    for pre opt post
    using that by (intro choose_closest) simp_all
  have no_choice: "choose_option rt self v opts = ret False"
    if "\<forall>p \<in> set opts. readable p \<and> \<not> exact_match rt v p \<and> \<not> partial_match rt v p"
      and "\<forall>p \<in> set opts. score rt self v p \<le> 0.5"
    for opts
    using that by (intro choose_nothing) simp_all
  show ?thesis
  proof (intro conjI allI impI)
    fix opts pre opt post
    assume a: "radio_options element opts
      \<and> (\<forall>p \<in> set opts. readable p \<and> \<not> exact_match rt v p \<and> \<not> partial_match rt v p)
      \<and> opts = pre @ opt # post
      \<and> (\<forall>p \<in> set pre. score rt self v p \<le> 0.7) \<and> score rt self v opt > 0.7"
    then have "choose_option rt self v (pre @ opt # post) = click_then opt True"
      by (intro semantic) auto
    moreover from a have "radio_options element (pre @ opt # post)" by auto
    ultimately show "fill_radio_field rt self drv element v =
        decides ''Error filling radio field: '' [] opt"
      by (intro radio_decides)
  next
    fix opts pre opt post
    assume a: "radio_options element opts
      \<and> (\<forall>p \<in> set opts. readable p \<and> \<not> exact_match rt v p \<and> \<not> partial_match rt v p)
      \<and> (\<forall>p \<in> set opts. score rt self v p \<le> 0.7)
      \<and> opts = pre @ opt # post
      \<and> (\<forall>p \<in> set pre. score rt self v p < score rt self v opt)
      \<and> (\<forall>p \<in> set post. score rt self v p \<le> score rt self v opt)
      \<and> score rt self v opt > 0.5"
    then have "choose_option rt self v (pre @ opt # post) = click_then opt True"
      by (intro closest) auto
    moreover from a have "radio_options element (pre @ opt # post)" by auto
    ultimately show "fill_radio_field rt self drv element v =
        decides ''Error filling radio field: '' [] opt"
      by (intro radio_decides)
  next
    fix opts
    assume a: "radio_options element opts
      \<and> (\<forall>p \<in> set opts. readable p \<and> \<not> exact_match rt v p \<and> \<not> partial_match rt v p)
      \<and> (\<forall>p \<in> set opts. score rt self v p \<le> 0.5)"
    then have "choose_option rt self v opts = ret False" by (intro no_choice) auto
    moreover from a have "radio_options element opts" by auto
    ultimately show "fill_radio_field rt self drv element v = (Inr False, [])"
      by (intro radio_nothing)
  next
    fix dropdown opts pre opt post
    assume a: "dropdown_options drv element dropdown opts
      \<and> (\<forall>p \<in> set opts. readable p \<and> \<not> exact_match rt v p \<and> \<not> partial_match rt v p)
      \<and> opts = pre @ opt # post
      \<and> (\<forall>p \<in> set pre. score rt self v p \<le> 0.7) \<and> score rt self v opt > 0.7"
    then have "choose_option rt self v (pre @ opt # post) = click_then opt True"
      by (intro semantic) auto
    moreover from a have "dropdown_options drv element dropdown (pre @ opt # post)" by auto
    ultimately show "fill_dropdown_field rt self drv element v =
        decides ''Error filling dropdown field: '' [Click dropdown] opt"
      by (intro dropdown_decides)
  next
    fix dropdown opts pre opt post
    assume a: "dropdown_options drv element dropdown opts
      \<and> (\<forall>p \<in> set opts. readable p \<and> \<not> exact_match rt v p \<and> \<not> partial_match rt v p)
      \<and> (\<forall>p \<in> set opts. score rt self v p \<le> 0.7)
      \<and> opts = pre @ opt # post
      \<and> (\<forall>p \<in> set pre. score rt self v p < score rt self v opt)
      \<and> (\<forall>p \<in> set post. score rt self v p \<le> score rt self v opt)
      \<and> score rt self v opt > 0.5"
    then have "choose_option rt self v (pre @ opt # post) = click_then opt True"
      by (intro closest) auto
    moreover from a have "dropdown_options drv element dropdown (pre @ opt # post)" by auto
    ultimately show "fill_dropdown_field rt self drv element v =
        decides ''Error filling dropdown field: '' [Click dropdown] opt"
      by (intro dropdown_decides)
  next
    fix dropdown opts
    assume a: "dropdown_options drv element dropdown opts
      \<and> (\<forall>p \<in> set opts. readable p \<and> \<not> exact_match rt v p \<and> \<not> partial_match rt v p)
      \<and> (\<forall>p \<in> set opts. score rt self v p \<le> 0.5)"
    then have "choose_option rt self v opts = ret False" by (intro no_choice) auto
    moreover from a have "dropdown_options drv element dropdown opts" by auto
    ultimately show "fill_dropdown_field rt self drv element v = (Inr False, [Click dropdown])"
      by (intro dropdown_nothing)
  next
    fix opt :: element
    assume "on_click opt = None"
    then show "decides ''Error filling radio field: '' [] opt = (Inr True, [Click opt])"
      by (simp add: decides_def)
  next
    fix opt :: element and dropdown :: element
    assume "on_click opt = None"
    then show "decides ''Error filling dropdown field: '' [Click dropdown] opt =
        (Inr True, [Click dropdown, Click opt])"
      by (simp add: decides_def)
  next
    fix opt c m
    assume "on_click opt = Some (c, m)"
    then show "decides ''Error filling radio field: '' [] opt =
        (Inr False, [Print (''Error filling radio field: '' @ m)])"
      by (simp add: decides_def)
  next
    fix opt c m and dropdown :: element
    assume "on_click opt = Some (c, m)"
    then show "decides ''Error filling dropdown field: '' [Click dropdown] opt =
        (Inr False, [Click dropdown, Print (''Error filling dropdown field: '' @ m)])"
      by (simp add: decides_def)
  next
    fix opts pre opt post c m
    assume "radio_options element opts \<and> opts = pre @ opt # post
        \<and> (\<forall>p \<in> set pre. readable p \<and> \<not> exact_match rt v p) \<and> text_of opt = Inl (c, m)"
    then have o: "radio_options element (pre @ opt # post)"
      and n: "\<forall>p \<in> set pre. readable p \<and> \<not> exact_match rt v p"
      and u: "text_of opt = Inl (c, m)"
      by auto
    from n u have "choose_option rt self v (pre @ opt # post) = throw (selenium (c, m))"
      by (rule choose_unreadable)
    with o have "fill_radio_field rt self drv element v =
        (Inr False, [Print (''Error filling radio field: '' @ snd (c, m))])"
      by (rule radio_unreadable)
    then show "fill_radio_field rt self drv element v =
        (Inr False, [Print (''Error filling radio field: '' @ m)])"
      by simp
  next
    fix dropdown opts pre opt post c m
    assume "dropdown_options drv element dropdown opts \<and> opts = pre @ opt # post
        \<and> (\<forall>p \<in> set pre. readable p \<and> \<not> exact_match rt v p) \<and> text_of opt = Inl (c, m)"
    then have o: "dropdown_options drv element dropdown (pre @ opt # post)"
      and n: "\<forall>p \<in> set pre. readable p \<and> \<not> exact_match rt v p"
      and u: "text_of opt = Inl (c, m)"
      by auto
    from n u have "choose_option rt self v (pre @ opt # post) = throw (selenium (c, m))"
      by (rule choose_unreadable)
    with o have "fill_dropdown_field rt self drv element v =
        (Inr False, [Click dropdown, Print (''Error filling dropdown field: '' @ snd (c, m))])"
      by (rule dropdown_unreadable)
    then show "fill_dropdown_field rt self drv element v =
        (Inr False, [Click dropdown, Print (''Error filling dropdown field: '' @ m)])"
      by simp
  qed
qed

theorem choice_semantic_fallback_witness:
  "score plain_runtime ada ''Red'' (leaf ''Azure'') = 1 / 2 \<and> score plain_runtime ada ''Red'' (leaf ''Tan'') = 1
   \<and> score plain_runtime ada ''Red'' (leaf ''Blue'') = 2 / 3 \<and> score plain_runtime ada ''Red'' (leaf ''Teal'') = 2 / 3
   \<and> score plain_runtime ada ''Red'' (leaf ''Vermillion'') = 2 / 9
   \<and> fill_radio_field plain_runtime ada quiet_driver (radio_field [''Azure'', ''Tan'']) ''Red'' =
       (Inr True, [Click (leaf ''Tan'')])
   \<and> fill_radio_field plain_runtime ada quiet_driver (radio_field [''Azure'', ''Blue'', ''Teal'']) ''Red'' =
       (Inr True, [Click (leaf ''Blue'')])
   \<and> fill_radio_field plain_runtime ada quiet_driver (radio_field [''Vermillion'', ''Azure'']) ''Red'' =
       (Inr False, [])
   \<and> fill_dropdown_field plain_runtime ada (options_driver [''Azure'', ''Tan'']) dropdown_field ''Red'' =
       (Inr True, [Click (leaf ''Choose''), Click (leaf ''Tan'')])
   \<and> fill_dropdown_field plain_runtime ada (options_driver [''Azure'', ''Blue'', ''Teal'']) dropdown_field ''Red'' =
       (Inr True, [Click (leaf ''Choose''), Click (leaf ''Blue'')])
   \<and> fill_dropdown_field plain_runtime ada (options_driver [''Vermillion'', ''Azure'']) dropdown_field ''Red'' =
       (Inr False, [Click (leaf ''Choose'')])
   \<and> score plain_runtime ada ''Tan'' stuck_option = 1
   \<and> fill_radio_field plain_runtime ada quiet_driver (radio_of [leaf ''Azure'', stuck_option]) ''Tan'' =
       (Inr False, [Print ''Error filling radio field: element not interactable''])
   \<and> fill_dropdown_field plain_runtime ada (options_page [leaf ''Azure'', stuck_option]) dropdown_field ''Tan'' =
       (Inr False, [Click (leaf ''Choose''),
                    Print ''Error filling dropdown field: element not interactable''])
   \<and> fill_radio_field plain_runtime ada quiet_driver (radio_of [leaf ''Azure'', unread_option]) ''Red'' =
       (Inr False, [Print ''Error filling radio field: stale element reference''])
   \<and> fill_dropdown_field plain_runtime ada (options_page [leaf ''Azure'', unread_option]) dropdown_field ''Red'' =
       (Inr False, [Click (leaf ''Choose''),
                    Print ''Error filling dropdown field: stale element reference''])"
proof -
  note c = choice_semantic_fallback [where rt = plain_runtime and self = ada]
  have s: "score plain_runtime ada ''Red'' (leaf ''Azure'') = 1 / 2" "score plain_runtime ada ''Red'' (leaf ''Tan'') = 1"
    "score plain_runtime ada ''Red'' (leaf ''Blue'') = 2 / 3" "score plain_runtime ada ''Red'' (leaf ''Teal'') = 2 / 3"
    "score plain_runtime ada ''Red'' (leaf ''Vermillion'') = 2 / 9"
    by (simp_all add: score_simps)
  have m: "readable (leaf ''Azure'') \<and> \<not> exact_match plain_runtime ''Red'' (leaf ''Azure'') \<and> \<not> partial_match plain_runtime ''Red'' (leaf ''Azure'')"
    "readable (leaf ''Tan'') \<and> \<not> exact_match plain_runtime ''Red'' (leaf ''Tan'') \<and> \<not> partial_match plain_runtime ''Red'' (leaf ''Tan'')"
    "readable (leaf ''Blue'') \<and> \<not> exact_match plain_runtime ''Red'' (leaf ''Blue'') \<and> \<not> partial_match plain_runtime ''Red'' (leaf ''Blue'')"
    "readable (leaf ''Teal'') \<and> \<not> exact_match plain_runtime ''Red'' (leaf ''Teal'') \<and> \<not> partial_match plain_runtime ''Red'' (leaf ''Teal'')"
    "readable (leaf ''Vermillion'') \<and> \<not> exact_match plain_runtime ''Red'' (leaf ''Vermillion'') \<and> \<not> partial_match plain_runtime ''Red'' (leaf ''Vermillion'')"
    by (simp_all add: text_simps)
  let ?sem = "[''Azure'', ''Tan'']" and ?best = "[''Azure'', ''Blue'', ''Teal'']"
    and ?none = "[''Vermillion'', ''Azure'']"
  have plain: "\<forall>p \<in> set (map leaf ?sem). readable p \<and> \<not> exact_match plain_runtime ''Red'' p \<and> \<not> partial_match plain_runtime ''Red'' p"
    "\<forall>p \<in> set (map leaf ?best). readable p \<and> \<not> exact_match plain_runtime ''Red'' p \<and> \<not> partial_match plain_runtime ''Red'' p"
    "\<forall>p \<in> set (map leaf ?none). readable p \<and> \<not> exact_match plain_runtime ''Red'' p \<and> \<not> partial_match plain_runtime ''Red'' p"
    using m by simp_all
  have sem: "map leaf ?sem = [leaf ''Azure''] @ leaf ''Tan'' # []"
    "\<forall>p \<in> set [leaf ''Azure'']. score plain_runtime ada ''Red'' p \<le> 0.7" "score plain_runtime ada ''Red'' (leaf ''Tan'') > 0.7"
    using s by simp_all
  have best: "\<forall>p \<in> set (map leaf ?best). score plain_runtime ada ''Red'' p \<le> 0.7"
    "map leaf ?best = [leaf ''Azure''] @ leaf ''Blue'' # [leaf ''Teal'']"
    "\<forall>p \<in> set [leaf ''Azure'']. score plain_runtime ada ''Red'' p < score plain_runtime ada ''Red'' (leaf ''Blue'')"
    "\<forall>p \<in> set [leaf ''Teal'']. score plain_runtime ada ''Red'' p \<le> score plain_runtime ada ''Red'' (leaf ''Blue'')"
    "score plain_runtime ada ''Red'' (leaf ''Blue'') > 0.5"
    using s by simp_all
  have none: "\<forall>p \<in> set (map leaf ?none). score plain_runtime ada ''Red'' p \<le> 0.5"
    using s by simp
  note radio_semantic = c [THEN conjunct1, rule_format]
  note radio_closest = c [THEN conjunct2, THEN conjunct1, rule_format]
  note radio_none = c [THEN conjunct2, THEN conjunct2, THEN conjunct1, rule_format]
  note dropdown_semantic =
    c [THEN conjunct2, THEN conjunct2, THEN conjunct2, THEN conjunct1, rule_format]
  note dropdown_closest =
    c [THEN conjunct2, THEN conjunct2, THEN conjunct2, THEN conjunct2, THEN conjunct1, rule_format]
  note dropdown_none =
    c [THEN conjunct2, THEN conjunct2, THEN conjunct2, THEN conjunct2, THEN conjunct2,
       THEN conjunct1, rule_format]
  note outcome =
    c [where dropdown = "leaf ''Choose''", THEN conjunct2, THEN conjunct2, THEN conjunct2,
       THEN conjunct2, THEN conjunct2, THEN conjunct2, THEN conjunct1, THEN spec]
  note clicked = outcome [THEN conjunct1, THEN mp]
  note refused = outcome [THEN conjunct2, rule_format]
  note radio_unread =
    c [THEN conjunct2, THEN conjunct2, THEN conjunct2, THEN conjunct2, THEN conjunct2,
       THEN conjunct2, THEN conjunct2, THEN conjunct1, rule_format]
  note dropdown_unread =
    c [THEN conjunct2, THEN conjunct2, THEN conjunct2, THEN conjunct2, THEN conjunct2,
       THEN conjunct2, THEN conjunct2, THEN conjunct2, rule_format]
  have 1: "fill_radio_field plain_runtime ada quiet_driver (radio_field ?sem) ''Red'' =
      decides ''Error filling radio field: '' [] (leaf ''Tan'')"
    apply (rule radio_semantic)
    apply (intro conjI)
        apply (rule radio_field_options)
       apply (rule plain(1))
      apply (rule sem(1))
     apply (rule sem(2))
    apply (rule sem(3))
    done
  have 2: "fill_radio_field plain_runtime ada quiet_driver (radio_field ?best) ''Red'' =
      decides ''Error filling radio field: '' [] (leaf ''Blue'')"
    apply (rule radio_closest)
    apply (intro conjI)
          apply (rule radio_field_options)
         apply (rule plain(2))
        apply (rule best(1))
       apply (rule best(2))
      apply (rule best(3))
     apply (rule best(4))
    apply (rule best(5))
    done
  have 3: "fill_radio_field plain_runtime ada quiet_driver (radio_field ?none) ''Red'' = (Inr False, [])"
    apply (rule radio_none)
    apply (intro conjI)
      apply (rule radio_field_options)
     apply (rule plain(3))
    apply (rule none)
    done
  have 4: "fill_dropdown_field plain_runtime ada (options_driver ?sem) dropdown_field ''Red'' =
      decides ''Error filling dropdown field: '' [Click (leaf ''Choose'')] (leaf ''Tan'')"
    apply (rule dropdown_semantic)
    apply (intro conjI)
        apply (rule dropdown_field_options)
       apply (rule plain(1))
      apply (rule sem(1))
     apply (rule sem(2))
    apply (rule sem(3))
    done
  have 5: "fill_dropdown_field plain_runtime ada (options_driver ?best) dropdown_field ''Red'' =
      decides ''Error filling dropdown field: '' [Click (leaf ''Choose'')] (leaf ''Blue'')"
    apply (rule dropdown_closest)
    apply (intro conjI)
          apply (rule dropdown_field_options)
         apply (rule plain(2))
        apply (rule best(1))
       apply (rule best(2))
      apply (rule best(3))
     apply (rule best(4))
    apply (rule best(5))
    done
  have 6: "fill_dropdown_field plain_runtime ada (options_driver ?none) dropdown_field ''Red'' =
      (Inr False, [Click (leaf ''Choose'')])"
    apply (rule dropdown_none)
    apply (intro conjI)
      apply (rule dropdown_field_options)
     apply (rule plain(3))
    apply (rule none)
    done
  have free: "on_click (leaf w) = None" for w by (simp add: leaf_def)
  note yes = clicked [OF free]
  have cs: "on_click stuck_option = Some (WebDriverException, ''element not interactable'')"
    by (simp add: stuck_option_def)
  note no = refused [OF cs]
  have ss: "score plain_runtime ada ''Tan'' stuck_option = 1"
    by (simp add: score_simps stuck_option_def)
  have stuck: "\<forall>p \<in> set [leaf ''Azure'', stuck_option].
        readable p \<and> \<not> exact_match plain_runtime ''Tan'' p \<and> \<not> partial_match plain_runtime ''Tan'' p"
    "[leaf ''Azure'', stuck_option] = [leaf ''Azure''] @ stuck_option # []"
    "\<forall>p \<in> set [leaf ''Azure'']. score plain_runtime ada ''Tan'' p \<le> 0.7"
    "score plain_runtime ada ''Tan'' stuck_option > 0.7"
    by (simp_all add: text_simps score_simps stuck_option_def)
  have 7: "fill_radio_field plain_runtime ada quiet_driver (radio_of [leaf ''Azure'', stuck_option]) ''Tan'' =
      decides ''Error filling radio field: '' [] stuck_option"
    apply (rule radio_semantic)
    apply (intro conjI)
        apply (rule radio_of_options)
       apply (rule stuck(1))
      apply (rule stuck(2))
     apply (rule stuck(3))
    apply (rule stuck(4))
    done
  have 8: "fill_dropdown_field plain_runtime ada (options_page [leaf ''Azure'', stuck_option])
      dropdown_field ''Tan'' =
      decides ''Error filling dropdown field: '' [Click (leaf ''Choose'')] stuck_option"
    apply (rule dropdown_semantic)
    apply (intro conjI)
        apply (rule options_page_options)
       apply (rule stuck(1))
      apply (rule stuck(2))
     apply (rule stuck(3))
    apply (rule stuck(4))
    done
  have u: "text_of unread_option = Inl (WebDriverException, ''stale element reference'')"
    by (simp add: unread_option_def stale_def)
  have unread: "[leaf ''Azure'', unread_option] = [leaf ''Azure''] @ unread_option # []" by simp
  have pre1: "\<forall>p \<in> set [leaf ''Azure'']. readable p \<and> \<not> exact_match plain_runtime ''Red'' p"
    using m(1) by simp
  have 9: "fill_radio_field plain_runtime ada quiet_driver
      (radio_of [leaf ''Azure'', unread_option]) ''Red'' =
      (Inr False, [Print (''Error filling radio field: '' @ ''stale element reference'')])"
    apply (rule radio_unread)
    apply (intro conjI)
       apply (rule radio_of_options)
      apply (rule unread)
     apply (rule pre1)
    apply (rule u)
    done
  have 10: "fill_dropdown_field plain_runtime ada
      (options_page [leaf ''Azure'', unread_option]) dropdown_field ''Red'' =
      (Inr False, [Click (leaf ''Choose''),
         Print (''Error filling dropdown field: '' @ ''stale element reference'')])"
    apply (rule dropdown_unread)
    apply (intro conjI)
       apply (rule options_page_options)
      apply (rule unread)
     apply (rule pre1)
    apply (rule u)
    done
  from s 1 2 3 4 5 6 ss 7 8 9 10 show ?thesis by (simp add: yes no)
qed


section \<open>The date strategy\<close>

subsection \<open>Decimal writing and parsing\<close>

lemma lt_10_cases: "k < 10 \<Longrightarrow> k \<in> {0, 1, 2, 3, 4, 5, 6, 7, 8, 9::nat}"
  by auto

lemma digit_char_ok:
  assumes "k < 10"
  shows "digit_val (digit_char k) = k" and "digit_char k \<in> set ''0123456789''"
  using lt_10_cases [OF assms] by (auto simp: digit_val_def digit_char_def)

lemma str_nat_lt_10: "n < 10 \<Longrightarrow> str_nat n = [digit_char n]"
  by (subst str_nat.simps) simp

lemma str_nat_ge_10: "10 \<le> n \<Longrightarrow> str_nat n = str_nat (n div 10) @ [digit_char (n mod 10)]"
  by (subst str_nat.simps) simp

lemma zfill_2:
  assumes "n < 100"
  shows "zfill 2 (str_nat n) = [digit_char (n div 10), digit_char (n mod 10)]"
proof (cases "n < 10")
  case True
  then show ?thesis by (simp add: zfill_def str_nat_lt_10 digit_char_def)
next
  case False
  with assms have "n div 10 < 10" by simp
  with False show ?thesis by (simp add: zfill_def str_nat_ge_10 str_nat_lt_10)
qed

lemma str_nat_3:
  assumes "100 \<le> n" and "n < 1000"
  shows "str_nat n = [digit_char (n div 100), digit_char (n div 10 mod 10), digit_char (n mod 10)]"
proof -
  from assms have "10 \<le> n div 10" "n div 10 div 10 < 10" "n div 10 div 10 = n div 100" by simp_all
  with assms show ?thesis
    by (simp add: str_nat_ge_10 str_nat_lt_10)
qed

lemma zfill_4:
  assumes "n < 10000"
  shows "zfill 4 (str_nat n) =
    [digit_char (n div 1000), digit_char (n div 100 mod 10), digit_char (n div 10 mod 10),
     digit_char (n mod 10)]"
proof -
  consider "n < 10" | "10 \<le> n" "n < 100" | "100 \<le> n" "n < 1000" | "1000 \<le> n" by linarith
  then show ?thesis
  proof cases
    case 1
    then show ?thesis by (simp add: zfill_def str_nat_lt_10 digit_char_def numeral_3_eq_3)
  next
    case 2
    then have "n div 10 < 10" by simp
    with 2 show ?thesis
      by (simp add: zfill_def str_nat_ge_10 str_nat_lt_10 digit_char_def numeral_2_eq_2
         )
  next
    case 3
    then have "n div 1000 = 0" "n div 100 mod 10 = n div 100" by simp_all
    with 3 show ?thesis
      by (simp add: zfill_def str_nat_3 digit_char_def)
  next
    case 4
    with assms have a: "100 \<le> n div 10" "n div 10 < 1000" by simp_all
    have b: "n div 10 div 100 = n div 1000" "n div 10 div 10 mod 10 = n div 100 mod 10"
      by (simp_all add: div_mult2_eq [symmetric])
    from 4 have "10 \<le> n" by simp
    then show ?thesis
      by (simp add: zfill_def str_nat_ge_10 [of n] str_nat_3 [OF a] b)
  qed
qed


lemma month_cases:
  "1 \<le> m \<Longrightarrow> m \<le> 12 \<Longrightarrow> m \<in> {1, 2, 3, 4, 5, 6, 7, 8, 9, 10, 11, 12::nat}"
  by simp arith

lemma day_cases:
  "1 \<le> d \<Longrightarrow> d \<le> 31 \<Longrightarrow>
   d \<in> {1, 2, 3, 4, 5, 6, 7, 8, 9, 10, 11, 12, 13, 14, 15, 16, 17, 18, 19, 20, 21, 22, 23, 24,
        25, 26, 27, 28, 29, 30, 31::nat}"
  by simp arith

lemma re_Y_digits:
  assumes "a < 10" "b < 10" "c < 10" "e < 10"
  shows "re_Y (digit_char a # digit_char b # digit_char c # digit_char e # rest) =
    [(1000 * a + 100 * b + 10 * c + e, rest)]"
  using assms digit_char_ok(2) [of a] digit_char_ok(2) [of b] digit_char_ok(2) [of c]
    digit_char_ok(2) [of e]
  by (simp add: re_Y_def digit_char_ok(1))

lemma re_mdY_month:
  assumes "1 \<le> m" and "m \<le> 12"
  shows "re_mdY (digit_char (m div 10) # digit_char (m mod 10) # CHR ''/'' # rest) =
     [(m, d, y, r5). (d, r3) \<leftarrow> re_d rest, r4 \<leftarrow> re_slash r3, (y, r5) \<leftarrow> re_Y r4]"
  using month_cases [OF assms]
  by (elim insertE emptyE)
     (simp_all add: re_mdY_def re_m_def re_slash_def digit_char_def digit_val_def)

lemma re_mdY_day:
  assumes "1 \<le> d" and "d \<le> 31"
  shows "[(m, d', y, r5).
            (d', r3) \<leftarrow> re_d (digit_char (d div 10) # digit_char (d mod 10) # CHR ''/'' # rest),
            r4 \<leftarrow> re_slash r3, (y, r5) \<leftarrow> re_Y r4] =
         [(m, d, y, r5). (y, r5) \<leftarrow> re_Y rest]"
  using day_cases [OF assms]
  by (elim insertE emptyE)
     (simp_all add: re_d_def re_slash_def digit_char_def digit_val_def)

lemma days_in_month_le: "days_in_month y m \<le> 31"
  by (simp add: days_in_month_def)

lemma decimal_4:
  "1000 * (n div 1000) + 100 * (n div 100 mod 10) + 10 * (n div 10 mod 10) + n mod 10 = (n::nat)"
proof -
  have a: "n div 100 = n div 10 div 10" "n div 1000 = n div 10 div 10 div 10"
    by (simp_all add: div_mult2_eq [symmetric])
  define q1 where "q1 = n div 10"
  define q2 where "q2 = q1 div 10"
  define q3 where "q3 = q2 div 10"
  have 1: "10 * q1 + n mod 10 = n" unfolding q1_def by (rule mult_div_mod_eq)
  have 2: "10 * q2 + q1 mod 10 = q1" unfolding q2_def by (rule mult_div_mod_eq)
  have 3: "10 * q3 + q2 mod 10 = q2" unfolding q3_def by (rule mult_div_mod_eq)
  have "1000 * q3 + 100 * (q2 mod 10) + 10 * (q1 mod 10) + n mod 10 =
        10 * (10 * (10 * q3 + q2 mod 10) + q1 mod 10) + n mod 10"
    by (simp add: algebra_simps)
  also have "\<dots> = n" by (simp only: 3 2 1)
  finally show ?thesis unfolding a q1_def q2_def q3_def .
qed

lemma digit_char_ascii: "k < 10 \<Longrightarrow> \<not> digit7 (digit_char k)"
  using lt_10_cases [of k] by (auto simp: digit_char_def)

lemma mdY_string_digits:
  assumes "m < 100" and "d < 100" and "y < 10000"
  shows "mdY_string y m d =
    [digit_char (m div 10), digit_char (m mod 10), CHR ''/'',
     digit_char (d div 10), digit_char (d mod 10), CHR ''/'',
     digit_char (y div 1000), digit_char (y div 100 mod 10), digit_char (y div 10 mod 10),
     digit_char (y mod 10)]"
  unfolding mdY_string_def zfill_2 [OF assms(1)] zfill_2 [OF assms(2)] zfill_4 [OF assms(3)]
  by simp

lemma strptime_mdY_roundtrip:
  assumes "valid_date y m d"
  shows "strptime_mdY rt (mdY_string y m d) = Inr (Date y m d)"
proof -
  from assms have y: "1 \<le> y" "y < 10000" and m: "1 \<le> m" "m \<le> 12"
    and d: "1 \<le> d" "d \<le> days_in_month y m"
    by (simp_all add: valid_date_def)
  from d have d31: "d \<le> 31" using days_in_month_le [of y m] by simp
  from m d31 have lt: "m < 100" "d < 100" by simp_all
  from y have digits: "y div 1000 < 10" "y div 100 mod 10 < 10" "y div 10 mod 10 < 10"
    "y mod 10 < 10" by simp_all
  from lt have small: "m div 10 < 10" "m mod 10 < 10" "d div 10 < 10" "d mod 10 < 10"
    by simp_all
  note string = mdY_string_digits [OF lt y(2)]
  have ascii: "is_ascii (mdY_string y m d)"
    unfolding string
    by (simp add: is_ascii_def digit_char_ascii [OF digits(1)] digit_char_ascii [OF digits(2)]
        digit_char_ascii [OF digits(3)] digit_char_ascii [OF digits(4)]
        digit_char_ascii [OF small(1)] digit_char_ascii [OF small(2)]
        digit_char_ascii [OF small(3)] digit_char_ascii [OF small(4)])
  have "re_mdY (mdY_string y m d) = [(m, d, y, [])]"
    unfolding string
    by (simp add: re_mdY_month [OF m] re_mdY_day [OF d(1) d31] re_Y_digits [OF digits]
        decimal_4)
  with y d ascii show ?thesis by (simp add: strptime_mdY_def)
qed

lemma str_nat_4:
  assumes "1000 \<le> n" and "n < 10000"
  shows "zfill 4 (str_nat n) = str_nat n"
proof -
  from assms have a: "100 \<le> n div 10" "n div 10 < 1000" by simp_all
  from assms have "10 \<le> n" by simp
  then show ?thesis
    by (simp add: zfill_def str_nat_ge_10 [of n] str_nat_3 [OF a])
qed

lemma strftime_Ymd_string:
  assumes "1000 \<le> y" and "y \<le> 9999"
  shows "strftime_Ymd rt (Date y m d) = Ymd_string y m d"
proof -
  from assms have "zfill 4 (str_nat y) = str_nat y" by (intro str_nat_4) simp_all
  with assms(1) show ?thesis by (simp add: strftime_Ymd_def strftime_Y_def Ymd_string_def)
qed

lemma keyboard_value_formatted:
  "(keyboard_value date_obj = strftime_Ymd rt date_obj) =
   (1000 \<le> year date_obj \<or> strftime_year_below_1000 rt (year date_obj) = str_nat (year date_obj))"
  by (auto simp: keyboard_value_def strftime_Ymd_def strftime_Y_def)

subsection \<open>The three techniques\<close>

lemma set_date_by_keyboard_ok:
  assumes "keyboard_ok inp date_obj"
  shows "set_date_by_keyboard inp date_obj =
     (Inr (Some True), Click inp # map (SendKeys inp) (keyboard_keys date_obj))"
  using assms
  by (simp add: keyboard_ok_def keyboard_keys_def set_date_by_keyboard_def click_def
      send_keys_def io_simps)

lemma set_date_by_keyboard_fails:
  assumes "\<not> keyboard_ok inp date_obj"
  shows "fst (set_date_by_keyboard inp date_obj) = Inr None"
proof (cases "on_click inp")
  case (Some err)
  then show ?thesis by (simp add: set_date_by_keyboard_def click_def io_simps)
next
  case None
  note c = None
  show ?thesis
  proof (cases "on_send_keys inp (str_nat (year date_obj))")
    case (Some err)
    with c show ?thesis
      by (simp add: set_date_by_keyboard_def click_def send_keys_def io_simps)
  next
    case None
    note k1 = None
    show ?thesis
    proof (cases "on_send_keys inp Keys_TAB")
      case (Some err)
      with c k1 show ?thesis
        by (simp add: set_date_by_keyboard_def click_def send_keys_def io_simps)
    next
      case None
      note k2 = None
      show ?thesis
      proof (cases "on_send_keys inp (zfill 2 (str_nat (month date_obj)))")
        case (Some err)
        with c k1 k2 show ?thesis
          by (simp add: set_date_by_keyboard_def click_def send_keys_def io_simps)
      next
        case None
        note k3 = None
        with assms c k1 k2 obtain err
          where "on_send_keys inp (zfill 2 (str_nat (day date_obj))) = Some err"
          by (auto simp: keyboard_ok_def keyboard_keys_def)
        with c k1 k2 k3 show ?thesis
          by (simp add: set_date_by_keyboard_def click_def send_keys_def io_simps)
      qed
    qed
  qed
qed

lemma set_date_directly_eq:
  "set_date_directly inp s =
     (case on_send_keys inp s of
        None \<Rightarrow> (Inr (Some True), [SendKeys inp s])
      | Some err \<Rightarrow> (Inr None, []))"
  by (simp add: set_date_directly_def send_keys_def io_simps split: option.splits)

lemma set_date_by_script_eq:
  "set_date_by_script drv inp s =
     (case on_execute_script drv js_set_value inp [s] of
        None \<Rightarrow> (Inr (Some True), [ExecuteScript js_set_value inp [s]])
      | Some err \<Rightarrow> (Inr None, []))"
  by (simp add: set_date_by_script_def execute_script_def io_simps split: option.splits)

text \<open>The strategy once the value is parsed and the date input located and cleared.\<close>

lemma fill_date_field_ready:
  assumes "strptime_mdY rt s = Inr date_obj"
    and "on_find_elements element xp_date = Inr (inp # others)"
    and "on_clear inp = None"
  shows "fill_date_field rt drv element s =
     (case on_send_keys inp (strftime_Ymd rt date_obj) of
        None \<Rightarrow> (Inr True, [Clear inp, SendKeys inp (strftime_Ymd rt date_obj)])
      | Some err \<Rightarrow>
          (case fst (set_date_by_keyboard inp date_obj) of
             Inr (Some b) \<Rightarrow> (Inr b, Clear inp # snd (set_date_by_keyboard inp date_obj))
           | _ \<Rightarrow>
             (case on_execute_script drv js_set_value inp [strftime_Ymd rt date_obj] of
                None \<Rightarrow> (Inr True, Clear inp # snd (set_date_by_keyboard inp date_obj) @
                          [ExecuteScript js_set_value inp [strftime_Ymd rt date_obj]])
              | Some err \<Rightarrow> (Inr False, Clear inp # snd (set_date_by_keyboard inp date_obj) @
                          [date_warning s]))))"
proof -
  obtain r t where kb: "set_date_by_keyboard inp date_obj = (r, t)"
    by (cases "set_date_by_keyboard inp date_obj")
  have "\<exists>x t. set_date_by_keyboard inp date_obj = (Inr x, t)"
    unfolding set_date_by_keyboard_def
    by (rule try_except_total) (simp add: ret_def)
  with kb obtain x where r: "r = Inr x" by auto
  have parsed: "lift (strptime_mdY rt s) = ret date_obj"
    using assms(1) by (simp add: lift_def ret_def)
  have located: "find_element rt element xp_date = ret inp"
    using assms(2) by (simp add: find_element_def)
  have cleared: "clear inp = emit (Clear inp)"
    using assms(3) by (simp add: clear_def call_def)
  have start: "fill_date_field rt drv element s =
      try_except
        (seq (emit (Clear inp)) (\<lambda>_.
         seq (set_date_directly inp (strftime_Ymd rt date_obj)) (\<lambda>r.
           case r of Some b \<Rightarrow> ret b | None \<Rightarrow>
         seq (set_date_by_keyboard inp date_obj) (\<lambda>r.
           case r of Some b \<Rightarrow> ret b | None \<Rightarrow>
         seq (set_date_by_script drv inp (strftime_Ymd rt date_obj)) (\<lambda>r.
           case r of Some b \<Rightarrow> ret b | None \<Rightarrow>
         seq (print (''Warning: Could not set date '' @ s @ '' using any method'')) (\<lambda>_.
         ret False))))))
        (\<lambda>e. seq (print (''Error filling date field: '' @ msg e)) (\<lambda>_. ret False))"
    unfolding fill_date_field_def parsed located cleared seq_ret Let_def ..
  show ?thesis
  proof (cases "on_send_keys inp (strftime_Ymd rt date_obj)")
    case None
    then show ?thesis
      unfolding start by (simp add: set_date_directly_eq io_simps)
  next
    case (Some err)
    note direct = Some
    show ?thesis
    proof (cases x)
      case (Some b)
      with direct kb r show ?thesis
        unfolding start by (simp add: set_date_directly_eq io_simps)
    next
      case None
      note keyboard = None
      show ?thesis
      proof (cases "on_execute_script drv js_set_value inp [strftime_Ymd rt date_obj]")
        case None
        with direct kb r keyboard show ?thesis
          unfolding start
          by (simp add: set_date_directly_eq set_date_by_script_eq io_simps)
      next
        case (Some err')
        with direct kb r keyboard show ?thesis
          unfolding start
          by (simp add: set_date_directly_eq set_date_by_script_eq date_warning_def io_simps)
      qed
    qed
  qed
qed

lemma fill_date_field_unparsed:
  assumes "strptime_mdY rt s = Inl e"
  shows "fill_date_field rt drv element s =
     (Inr False, [Print (''Error filling date field: '' @ msg e)])"
proof -
  have parsed: "lift (strptime_mdY rt s) = throw e"
    using assms by (simp add: lift_def throw_def)
  show ?thesis
    unfolding fill_date_field_def parsed seq_throw
    by (simp add: throw_def try_except_Inl print_then_ret)
qed

lemma fill_date_field_not_located:
  assumes "strptime_mdY rt s = Inr date_obj" and "on_find_elements element xp_date = Inr []"
  shows "fill_date_field rt drv element s =
     (Inr False, [Print (''Error filling date field: '' @ no_such_element_message rt xp_date)])"
proof -
  have parsed: "lift (strptime_mdY rt s) = ret date_obj"
    using assms(1) by (simp add: lift_def ret_def)
  have located: "find_element rt element xp_date =
      throw (SeleniumError NoSuchElementException (no_such_element_message rt xp_date))"
    using assms(2) by (simp add: find_element_def)
  show ?thesis
    unfolding fill_date_field_def parsed located seq_ret seq_throw
    by (simp add: throw_def try_except_Inl print_then_ret)
qed

lemma fill_date_field_search_raises:
  assumes "strptime_mdY rt s = Inr date_obj" and "on_find_elements element xp_date = Inl (c, e)"
  shows "fill_date_field rt drv element s = (Inr False, [Print (''Error filling date field: '' @ e)])"
proof -
  have parsed: "lift (strptime_mdY rt s) = ret date_obj"
    using assms(1) by (simp add: lift_def ret_def)
  have located: "find_element rt element xp_date = throw (SeleniumError c e)"
    using assms(2) by (simp add: find_element_def selenium_def)
  show ?thesis
    unfolding fill_date_field_def parsed located seq_ret seq_throw
    by (simp add: throw_def try_except_Inl print_then_ret)
qed

lemma fill_date_field_not_cleared:
  assumes "strptime_mdY rt s = Inr date_obj"
    and "on_find_elements element xp_date = Inr (inp # others)"
    and "on_clear inp = Some (c, e)"
  shows "fill_date_field rt drv element s = (Inr False, [Print (''Error filling date field: '' @ e)])"
proof -
  have parsed: "lift (strptime_mdY rt s) = ret date_obj"
    using assms(1) by (simp add: lift_def ret_def)
  have located: "find_element rt element xp_date = ret inp"
    using assms(2) by (simp add: find_element_def)
  have cleared: "clear inp = throw (SeleniumError c e)"
    using assms(3) by (simp add: clear_def call_def selenium_def)
  show ?thesis
    unfolding fill_date_field_def parsed located cleared seq_ret seq_throw Let_def
    by (simp add: throw_def try_except_Inl print_then_ret)
qed

lemmas strptime_simps =
  strptime_mdY_def re_mdY_def re_m_def re_d_def re_Y_def re_slash_def digit_val_def
  days_in_month_def is_leap_def is_ascii_def

lemma strptime_mdY_examples:
  "strptime_mdY rt ''03/07/2024'' = Inr (Date 2024 3 7)"
  "strptime_mdY rt ''3/7/2024'' = Inr (Date 2024 3 7)"
  by (simp_all add: strptime_simps)

lemma strftime_Ymd_example: "strftime_Ymd rt (Date 2024 3 7) = ''2024-03-07''"
  by (simp add: strftime_Ymd_def strftime_Y_def zfill_def str_nat.simps digit_char_def)

text \<open>
  Claim C6, as the code has it. \<open>strptime\<close> reads every existing date of the years 1 to
  9999 written \<open>month/day/year\<close> with two, two and four digits, as it reads \<open>03/07/2024\<close>
  and \<open>3/7/2024\<close>. For every value that \<open>strptime\<close> reads, \<open>fill_date_field\<close> forms the value
  \<open>year-month-day\<close> once, before any technique: month and day have two digits, the year
  has four from the year 1000 on, and \<open>03/07/2024\<close> gives \<open>2024-03-07\<close>. Direct typing and
  script assignment hand over that one value; keyboard entry types the year, the two-digit
  month and the two-digit day of the same parsed date, which spell the formatted value
  exactly when the year is at least 1000 or \<open>%Y\<close> writes a smaller year as \<open>str\<close> does.
  Once the date input has been located and cleared, the techniques are tried in the order
  typing the formatted value, keyboard entry, script assignment; the first that goes
  through ends the call with \<open>True\<close>, and the answer is \<open>False\<close> exactly when all three
  fail. The answer is also \<open>False\<close>, with no technique tried, when the value is not read
  as a date, when the date input is not found or the search raises, and when clearing it
  raises.
\<close>

theorem fill_date_field_techniques:
  "(\<forall>y m d. valid_date y m d \<longrightarrow> strptime_mdY rt (mdY_string y m d) = Inr (Date y m d))
   \<and> strptime_mdY rt ''03/07/2024'' = Inr (Date 2024 3 7)
   \<and> strptime_mdY rt ''3/7/2024'' = Inr (Date 2024 3 7)
   \<and> strftime_Ymd rt (Date 2024 3 7) = ''2024-03-07''
   \<and> (\<forall>y m d. 1000 \<le> y \<and> y \<le> 9999 \<longrightarrow> strftime_Ymd rt (Date y m d) = Ymd_string y m d)
   \<and> (\<forall>e. strptime_mdY rt s = Inl e \<longrightarrow>
        fill_date_field rt drv element s =
          (Inr False, [Print (''Error filling date field: '' @ msg e)]))
   \<and> (\<forall>date_obj. strptime_mdY rt s = Inr date_obj \<longrightarrow>
        ((keyboard_value date_obj = strftime_Ymd rt date_obj) =
           (1000 \<le> year date_obj
            \<or> strftime_year_below_1000 rt (year date_obj) = str_nat (year date_obj)))
        \<and> (\<forall>inp others.
             on_find_elements element xp_date = Inr (inp # others) \<and> on_clear inp = None \<longrightarrow>
             (on_send_keys inp (strftime_Ymd rt date_obj) = None \<longrightarrow>
                fill_date_field rt drv element s =
                  (Inr True, [Clear inp, SendKeys inp (strftime_Ymd rt date_obj)]))
             \<and> (on_send_keys inp (strftime_Ymd rt date_obj) \<noteq> None \<and> keyboard_ok inp date_obj \<longrightarrow>
                fill_date_field rt drv element s =
                  (Inr True, Clear inp # Click inp # map (SendKeys inp) (keyboard_keys date_obj)))
             \<and> (on_send_keys inp (strftime_Ymd rt date_obj) \<noteq> None \<and> \<not> keyboard_ok inp date_obj
                 \<and> on_execute_script drv js_set_value inp [strftime_Ymd rt date_obj] = None \<longrightarrow>
                fill_date_field rt drv element s =
                  (Inr True, Clear inp # snd (set_date_by_keyboard inp date_obj) @
                     [ExecuteScript js_set_value inp [strftime_Ymd rt date_obj]]))
             \<and> (on_send_keys inp (strftime_Ymd rt date_obj) \<noteq> None \<and> \<not> keyboard_ok inp date_obj
                 \<and> on_execute_script drv js_set_value inp [strftime_Ymd rt date_obj] \<noteq> None \<longrightarrow>
                fill_date_field rt drv element s =
                  (Inr False, Clear inp # snd (set_date_by_keyboard inp date_obj) @
                     [date_warning s]))
             \<and> ((fst (fill_date_field rt drv element s) = Inr False) =
                  (on_send_keys inp (strftime_Ymd rt date_obj) \<noteq> None \<and> \<not> keyboard_ok inp date_obj
                   \<and> on_execute_script drv js_set_value inp [strftime_Ymd rt date_obj] \<noteq> None)))
        \<and> (on_find_elements element xp_date = Inr [] \<longrightarrow>
             fill_date_field rt drv element s =
               (Inr False,
                [Print (''Error filling date field: '' @ no_such_element_message rt xp_date)]))
        \<and> (\<forall>c e. on_find_elements element xp_date = Inl (c, e) \<longrightarrow>
             fill_date_field rt drv element s =
               (Inr False, [Print (''Error filling date field: '' @ e)]))
        \<and> (\<forall>inp others c e.
             on_find_elements element xp_date = Inr (inp # others) \<and> on_clear inp = Some (c, e) \<longrightarrow>
             fill_date_field rt drv element s =
               (Inr False, [Print (''Error filling date field: '' @ e)])))"
proof -
  have round: "strptime_mdY rt (mdY_string y m d) = Inr (Date y m d)" if "valid_date y m d"
    for y m d
    using that by (rule strptime_mdY_roundtrip)
  have fmt: "strftime_Ymd rt (Date y m d) = Ymd_string y m d" if "1000 \<le> y \<and> y \<le> 9999"
    for y m d
    using that by (intro strftime_Ymd_string) simp_all
  have bad: "fill_date_field rt drv element s =
      (Inr False, [Print (''Error filling date field: '' @ msg e)])"
    if "strptime_mdY rt s = Inl e" for e
    using that by (rule fill_date_field_unparsed)
  have good: "((keyboard_value date_obj = strftime_Ymd rt date_obj) =
           (1000 \<le> year date_obj
            \<or> strftime_year_below_1000 rt (year date_obj) = str_nat (year date_obj)))
        \<and> (\<forall>inp others.
             on_find_elements element xp_date = Inr (inp # others) \<and> on_clear inp = None \<longrightarrow>
             (on_send_keys inp (strftime_Ymd rt date_obj) = None \<longrightarrow>
                fill_date_field rt drv element s =
                  (Inr True, [Clear inp, SendKeys inp (strftime_Ymd rt date_obj)]))
             \<and> (on_send_keys inp (strftime_Ymd rt date_obj) \<noteq> None \<and> keyboard_ok inp date_obj \<longrightarrow>
                fill_date_field rt drv element s =
                  (Inr True, Clear inp # Click inp # map (SendKeys inp) (keyboard_keys date_obj)))
             \<and> (on_send_keys inp (strftime_Ymd rt date_obj) \<noteq> None \<and> \<not> keyboard_ok inp date_obj
                 \<and> on_execute_script drv js_set_value inp [strftime_Ymd rt date_obj] = None \<longrightarrow>
                fill_date_field rt drv element s =
                  (Inr True, Clear inp # snd (set_date_by_keyboard inp date_obj) @
                     [ExecuteScript js_set_value inp [strftime_Ymd rt date_obj]]))
             \<and> (on_send_keys inp (strftime_Ymd rt date_obj) \<noteq> None \<and> \<not> keyboard_ok inp date_obj
                 \<and> on_execute_script drv js_set_value inp [strftime_Ymd rt date_obj] \<noteq> None \<longrightarrow>
                fill_date_field rt drv element s =
                  (Inr False, Clear inp # snd (set_date_by_keyboard inp date_obj) @
                     [date_warning s]))
             \<and> ((fst (fill_date_field rt drv element s) = Inr False) =
                  (on_send_keys inp (strftime_Ymd rt date_obj) \<noteq> None \<and> \<not> keyboard_ok inp date_obj
                   \<and> on_execute_script drv js_set_value inp [strftime_Ymd rt date_obj] \<noteq> None)))
        \<and> (on_find_elements element xp_date = Inr [] \<longrightarrow>
             fill_date_field rt drv element s =
               (Inr False,
                [Print (''Error filling date field: '' @ no_such_element_message rt xp_date)]))
        \<and> (\<forall>c e. on_find_elements element xp_date = Inl (c, e) \<longrightarrow>
             fill_date_field rt drv element s =
               (Inr False, [Print (''Error filling date field: '' @ e)]))
        \<and> (\<forall>inp others c e.
             on_find_elements element xp_date = Inr (inp # others) \<and> on_clear inp = Some (c, e) \<longrightarrow>
             fill_date_field rt drv element s =
               (Inr False, [Print (''Error filling date field: '' @ e)]))"
    if parse: "strptime_mdY rt s = Inr date_obj" for date_obj
  proof (intro conjI allI impI)
    show "(keyboard_value date_obj = strftime_Ymd rt date_obj) =
        (1000 \<le> year date_obj
         \<or> strftime_year_below_1000 rt (year date_obj) = str_nat (year date_obj))"
      by (rule keyboard_value_formatted)
  next
    fix inp others
    assume a: "on_find_elements element xp_date = Inr (inp # others) \<and> on_clear inp = None"
      and "on_send_keys inp (strftime_Ymd rt date_obj) = None"
    then show "fill_date_field rt drv element s =
        (Inr True, [Clear inp, SendKeys inp (strftime_Ymd rt date_obj)])"
      by (simp add: fill_date_field_ready [OF parse, of element inp others])
  next
    fix inp others
    assume a: "on_find_elements element xp_date = Inr (inp # others) \<and> on_clear inp = None"
      and b: "on_send_keys inp (strftime_Ymd rt date_obj) \<noteq> None \<and> keyboard_ok inp date_obj"
    from a have loc: "on_find_elements element xp_date = Inr (inp # others)"
      and clr: "on_clear inp = None" by simp_all
    from b show "fill_date_field rt drv element s =
        (Inr True, Clear inp # Click inp # map (SendKeys inp) (keyboard_keys date_obj))"
      by (auto simp: fill_date_field_ready [OF parse loc clr] set_date_by_keyboard_ok)
  next
    fix inp others
    assume a: "on_find_elements element xp_date = Inr (inp # others) \<and> on_clear inp = None"
      and b: "on_send_keys inp (strftime_Ymd rt date_obj) \<noteq> None \<and> \<not> keyboard_ok inp date_obj
          \<and> on_execute_script drv js_set_value inp [strftime_Ymd rt date_obj] = None"
    from a have loc: "on_find_elements element xp_date = Inr (inp # others)"
      and clr: "on_clear inp = None" by simp_all
    from b have "fst (set_date_by_keyboard inp date_obj) = Inr None"
      by (intro set_date_by_keyboard_fails) simp
    with b show "fill_date_field rt drv element s =
        (Inr True, Clear inp # snd (set_date_by_keyboard inp date_obj) @
           [ExecuteScript js_set_value inp [strftime_Ymd rt date_obj]])"
      by (auto simp: fill_date_field_ready [OF parse loc clr])
  next
    fix inp others
    assume a: "on_find_elements element xp_date = Inr (inp # others) \<and> on_clear inp = None"
      and b: "on_send_keys inp (strftime_Ymd rt date_obj) \<noteq> None \<and> \<not> keyboard_ok inp date_obj
          \<and> on_execute_script drv js_set_value inp [strftime_Ymd rt date_obj] \<noteq> None"
    from a have loc: "on_find_elements element xp_date = Inr (inp # others)"
      and clr: "on_clear inp = None" by simp_all
    from b have "fst (set_date_by_keyboard inp date_obj) = Inr None"
      by (intro set_date_by_keyboard_fails) simp
    with b show "fill_date_field rt drv element s =
        (Inr False, Clear inp # snd (set_date_by_keyboard inp date_obj) @ [date_warning s])"
      by (auto simp: fill_date_field_ready [OF parse loc clr])
  next
    fix inp others
    assume a: "on_find_elements element xp_date = Inr (inp # others) \<and> on_clear inp = None"
    then have loc: "on_find_elements element xp_date = Inr (inp # others)"
      and clr: "on_clear inp = None" by simp_all
    note ready = fill_date_field_ready [OF parse loc clr, of drv]
    show "(fst (fill_date_field rt drv element s) = Inr False) =
        (on_send_keys inp (strftime_Ymd rt date_obj) \<noteq> None \<and> \<not> keyboard_ok inp date_obj
         \<and> on_execute_script drv js_set_value inp [strftime_Ymd rt date_obj] \<noteq> None)"
    proof (cases "on_send_keys inp (strftime_Ymd rt date_obj)")
      case None
      then show ?thesis by (simp add: ready)
    next
      case (Some err)
      note direct = Some
      show ?thesis
      proof (cases "keyboard_ok inp date_obj")
        case True
        with direct show ?thesis by (simp add: ready set_date_by_keyboard_ok)
      next
        case False
        then have "fst (set_date_by_keyboard inp date_obj) = Inr None"
          by (rule set_date_by_keyboard_fails)
        with direct False show ?thesis
          by (cases "on_execute_script drv js_set_value inp [strftime_Ymd rt date_obj]")
             (simp_all add: ready)
      qed
    qed
  next
    assume "on_find_elements element xp_date = Inr []"
    with parse show "fill_date_field rt drv element s =
        (Inr False, [Print (''Error filling date field: '' @ no_such_element_message rt xp_date)])"
      by (rule fill_date_field_not_located)
  next
    fix c e
    assume "on_find_elements element xp_date = Inl (c, e)"
    with parse show "fill_date_field rt drv element s =
        (Inr False, [Print (''Error filling date field: '' @ e)])"
      by (rule fill_date_field_search_raises)
  next
    fix inp others c e
    assume "on_find_elements element xp_date = Inr (inp # others) \<and> on_clear inp = Some (c, e)"
    then have "on_find_elements element xp_date = Inr (inp # others)"
      and "on_clear inp = Some (c, e)" by simp_all
    with parse show "fill_date_field rt drv element s =
        (Inr False, [Print (''Error filling date field: '' @ e)])"
      by (rule fill_date_field_not_cleared)
  qed
  show ?thesis
    apply (intro conjI)
    subgoal by (intro allI impI) (erule round)
    subgoal by (rule strptime_mdY_examples(1))
    subgoal by (rule strptime_mdY_examples(2))
    subgoal by (rule strftime_Ymd_example)
    subgoal by (intro allI impI) (erule fmt)
    subgoal by (intro allI impI) (erule bad)
    subgoal by (rule allI, rule impI, erule good)
    done
qed

lemma date_2024_03_07:
  "valid_date 2024 3 7" "mdY_string 2024 3 7 = ''03/07/2024''"
  "Ymd_string 2024 3 7 = ''2024-03-07''"
  "keyboard_keys (Date 2024 3 7) = [''2024'', Keys_TAB, ''03'', Keys_TAB, ''07'']"
  "keyboard_value (Date 2024 3 7) = ''2024-03-07''"
  by (simp_all add: valid_date_def days_in_month_def is_leap_def mdY_string_def Ymd_string_def
      keyboard_keys_def keyboard_value_def zfill_def str_nat.simps digit_char_def)

text \<open>The claim as the specification words it says that only exhausting the three
  techniques gives \<open>False\<close>. Here the date input is found and would take the formatted
  value, but clearing it raises: the answer is \<open>False\<close> and no technique was tried.\<close>

theorem fill_date_field_false_without_attempt:
  "strptime_mdY plain_runtime ''03/07/2024'' = Inr (Date 2024 3 7)
   \<and> on_find_elements (date_field_of frozen_input) xp_date = Inr [frozen_input]
   \<and> on_send_keys frozen_input ''2024-03-07'' = None
   \<and> fill_date_field plain_runtime quiet_driver (date_field_of frozen_input) ''03/07/2024'' =
       (Inr False, [Print ''Error filling date field: invalid element state''])"
  by (simp add: strptime_simps date_field_of_def frozen_input_def fill_date_field_def
      find_element_def clear_def io_simps)

theorem fill_date_field_techniques_witness:
  "valid_date 2024 3 7
   \<and> strptime_mdY plain_runtime (mdY_string 2024 3 7) = Inr (Date 2024 3 7)
   \<and> strptime_mdY plain_runtime ''03/07/2024'' = Inr (Date 2024 3 7)
   \<and> strftime_Ymd plain_runtime (Date 2024 3 7) = Ymd_string 2024 3 7
   \<and> strftime_Ymd plain_runtime (Date 2024 3 7) = ''2024-03-07''
   \<and> keyboard_value (Date 2024 3 7) = strftime_Ymd plain_runtime (Date 2024 3 7)
   \<and> strptime_mdY plain_runtime ''tomorrow'' = Inl (ValueError ''time data does not match format'')
   \<and> fill_date_field plain_runtime quiet_driver (date_field_of (leaf [])) ''tomorrow'' =
       (Inr False, [Print ''Error filling date field: time data does not match format''])
   \<and> fill_date_field plain_runtime quiet_driver (date_field_of (leaf [])) ''03/07/2024'' =
       (Inr True, [Clear (leaf []), SendKeys (leaf []) ''2024-03-07''])
   \<and> fill_date_field plain_runtime quiet_driver (date_field_of picky_input) ''03/07/2024'' =
       (Inr True, [Clear picky_input, Click picky_input, SendKeys picky_input ''2024'',
                   SendKeys picky_input Keys_TAB, SendKeys picky_input ''03'',
                   SendKeys picky_input Keys_TAB, SendKeys picky_input ''07''])
   \<and> fill_date_field plain_runtime quiet_driver (date_field_of mute_input) ''03/07/2024'' =
       (Inr True, [Clear mute_input, Click mute_input,
                   ExecuteScript js_set_value mute_input [''2024-03-07'']])
   \<and> fill_date_field plain_runtime scriptless_driver (date_field_of mute_input) ''03/07/2024'' =
       (Inr False, [Clear mute_input, Click mute_input, date_warning ''03/07/2024''])
   \<and> fst (fill_date_field plain_runtime scriptless_driver (date_field_of mute_input) ''03/07/2024'') =
       Inr False
   \<and> fill_date_field plain_runtime quiet_driver (leaf []) ''03/07/2024'' =
       (Inr False, [Print (''Error filling date field: Message: no such element: '' @ xp_date)])
   \<and> fill_date_field plain_runtime quiet_driver broken ''03/07/2024'' =
       (Inr False, [Print ''Error filling date field: stale element reference''])
   \<and> fill_date_field plain_runtime quiet_driver (date_field_of frozen_input) ''03/07/2024'' =
       (Inr False, [Print ''Error filling date field: invalid element state''])"
proof -
  note v = date_2024_03_07(1)
  note c = fill_date_field_techniques [where rt = plain_runtime]
  note round = c [THEN conjunct1, rule_format, OF v]
  note parse = c [THEN conjunct2, THEN conjunct1]
  note fmt = c [THEN conjunct2, THEN conjunct2, THEN conjunct2, THEN conjunct1]
  have four: "1000 \<le> (2024::nat) \<and> (2024::nat) \<le> 9999" by simp
  note pad = c [THEN conjunct2, THEN conjunct2, THEN conjunct2, THEN conjunct2, THEN conjunct1,
      rule_format, OF four, where m = 3 and d = 7]
  note bad = c [THEN conjunct2, THEN conjunct2, THEN conjunct2, THEN conjunct2, THEN conjunct2,
      THEN conjunct1, rule_format]
  note good = c [where s = "''03/07/2024''", THEN conjunct2, THEN conjunct2, THEN conjunct2,
      THEN conjunct2, THEN conjunct2, THEN conjunct2, rule_format, OF parse, unfolded fmt]
  note same = good [THEN conjunct1]
  note chain = good [THEN conjunct2, THEN conjunct1, rule_format]
  note gone = good [THEN conjunct2, THEN conjunct2, THEN conjunct1, rule_format]
  note search = good [THEN conjunct2, THEN conjunct2, THEN conjunct2, THEN conjunct1, rule_format]
  note stuck = good [THEN conjunct2, THEN conjunct2, THEN conjunct2, THEN conjunct2, rule_format]
  have spell: "keyboard_value (Date 2024 3 7) = ''2024-03-07''"
    using same by simp
  have unread: "strptime_mdY plain_runtime ''tomorrow'' =
      Inl (ValueError ''time data does not match format'')"
    by (simp add: strptime_simps plain_runtime_def)
  note 0 = bad [OF unread, of quiet_driver "date_field_of (leaf [])"]
  have loc: "on_find_elements (date_field_of inp) xp_date = Inr (inp # [])" for inp
    by (simp add: date_field_of_def)
  have ready: "on_find_elements (date_field_of inp) xp_date = Inr (inp # []) \<and> on_clear inp = None"
    if "on_clear inp = None" for inp
    using that loc by simp
  have clr: "on_clear (leaf []) = None" "on_clear picky_input = None" "on_clear mute_input = None"
    by (simp_all add: leaf_def picky_input_def mute_input_def)
  have 1: "fill_date_field plain_runtime quiet_driver (date_field_of (leaf [])) ''03/07/2024'' =
       (Inr True, [Clear (leaf []), SendKeys (leaf []) ''2024-03-07''])"
    by (rule chain [OF ready [OF clr(1)], THEN conjunct1, rule_format]) (simp add: leaf_def)
  have kb: "on_send_keys picky_input ''2024-03-07'' \<noteq> None \<and> keyboard_ok picky_input (Date 2024 3 7)"
    by (simp add: picky_input_def keyboard_ok_def date_2024_03_07(4) Keys_TAB_def untyped_def)
  have 2: "fill_date_field plain_runtime quiet_driver (date_field_of picky_input) ''03/07/2024'' =
       (Inr True, Clear picky_input # Click picky_input #
          map (SendKeys picky_input) [''2024'', Keys_TAB, ''03'', Keys_TAB, ''07''])"
    by (rule chain [OF ready [OF clr(2)], THEN conjunct2, THEN conjunct1, rule_format, OF kb,
        unfolded date_2024_03_07(4)])
  have partial: "snd (set_date_by_keyboard mute_input (Date 2024 3 7)) = [Click mute_input]"
    by (simp add: set_date_by_keyboard_def click_def send_keys_def mute_input_def untyped_def
        io_simps selenium_simps)
  have sc: "on_send_keys mute_input ''2024-03-07'' \<noteq> None \<and> \<not> keyboard_ok mute_input (Date 2024 3 7)
      \<and> on_execute_script quiet_driver js_set_value mute_input [''2024-03-07''] = None"
    by (auto simp: mute_input_def keyboard_ok_def date_2024_03_07(4) quiet_driver_def untyped_def)
  note 3 = chain [OF ready [OF clr(3)], THEN conjunct2, THEN conjunct2, THEN conjunct1,
      rule_format, OF sc, unfolded partial]
  have no: "on_send_keys mute_input ''2024-03-07'' \<noteq> None \<and> \<not> keyboard_ok mute_input (Date 2024 3 7)
      \<and> on_execute_script scriptless_driver js_set_value mute_input [''2024-03-07''] \<noteq> None"
    by (auto simp: mute_input_def keyboard_ok_def date_2024_03_07(4) scriptless_driver_def
        untyped_def)
  note 4 = chain [OF ready [OF clr(3)], THEN conjunct2, THEN conjunct2, THEN conjunct2,
      THEN conjunct1, rule_format, OF no, unfolded partial]
  note 5 = chain [OF ready [OF clr(3)], THEN conjunct2, THEN conjunct2, THEN conjunct2,
      THEN conjunct2, THEN iffD2, OF no]
  have message: "no_such_element_message plain_runtime xp_date =
      ''Message: no such element: '' @ xp_date"
    by (simp add: plain_runtime_def)
  have 6: "fill_date_field plain_runtime quiet_driver (leaf []) ''03/07/2024'' =
       (Inr False, [Print (''Error filling date field: '' @
          no_such_element_message plain_runtime xp_date)])"
    by (rule gone) (simp add: leaf_def)
  have 7: "fill_date_field plain_runtime quiet_driver broken ''03/07/2024'' =
       (Inr False, [Print (''Error filling date field: '' @ ''stale element reference'')])"
    by (rule search) (simp add: broken_def stale_def)
  have fr: "on_find_elements (date_field_of frozen_input) xp_date = Inr (frozen_input # [])
      \<and> on_clear frozen_input = Some (WebDriverException, ''invalid element state'')"
    by (simp add: date_field_of_def frozen_input_def)
  note 8 = stuck [OF fr]
  from v round parse fmt pad spell unread 0 1 2 3 4 5 6 7 8 show ?thesis
    by (simp add: date_2024_03_07(2,3) message)
qed

section \<open>The fill pass\<close>

lemma init_keys: "map fst (field_embeddings (init mdl fd)) = map fst fd"
  by (simp add: init_def create_field_embeddings_def)

lemma find_best_match_key:
  assumes "find_best_match self q t = Inr (Some f)"
  shows "f \<in> set (map fst (field_embeddings self))"
proof -
  from find_best_match_Some [OF assms] obtain s where "(f, s) \<in> set (similarities_of self q)"
    by blast
  then have "f \<in> set (map fst (similarities_of self q))" by force
  then show ?thesis by (simp only: similarities_keys)
qed

lemma py_getitem_key:
  assumes "k \<in> set (map fst d)"
  shows "\<exists>v. py_getitem rt d k = Inr v"
proof -
  from assms have "map_of d k \<noteq> None" by (simp add: map_of_eq_None_iff)
  then show ?thesis by (auto simp: py_getitem_def)
qed

lemma find_best_match_raises:
  assumes "find_best_match self q t = Inl e"
  shows "field_embeddings self = [] \<and> e = ValueError ''max() arg is an empty sequence''"
proof (cases "similarities_of self q")
  case Nil
  then have "map fst (field_embeddings self) = []" using similarities_keys [of self q] by simp
  with assms Nil show ?thesis by (simp add: find_best_match_def py_max_def)
next
  case (Cons a list)
  with assms show ?thesis by (simp add: find_best_match_def py_max_def split: if_splits)
qed

lemma find_best_match_empty:
  "field_embeddings self = [] \<Longrightarrow>
   find_best_match self q t = Inl (ValueError ''max() arg is an empty sequence'')"
  by (simp add: find_best_match_def similarities_of_def py_max_def)

lemma find_field_by_text_returns: "\<exists>c t. find_field_by_text rt drv q = (Inr c, t)"
  unfolding find_field_by_text_def
  by (rule try_except_total) (simp add: print_then_ret)


lemma seq_lift_Inr: "seq (lift (Inr x)) f = f x"
  by (cases "f x") (simp add: lift_def seq_Inr)

lemma seq_lift_Inl: "seq (lift (Inl e)) f = (Inl e, [])"
  by (simp add: lift_def seq_Inl)

lemma fill_by_type_returns:
  "\<exists>b t. (if ty = ''date'' then fill_date_field rt drv container v
           else if ty = ''radio'' then fill_radio_field rt self drv container v
           else if ty = ''dropdown'' then fill_dropdown_field rt self drv container v
           else fill_text_field rt drv container v) = (Inr b, t)"
  by (simp add: fill_date_field_returns fill_radio_field_returns fill_dropdown_field_returns
      fill_text_field_returns)

text \<open>What the processing of one question can end with.\<close>

lemma process_question_cases:
  assumes keys: "set (map fst (field_embeddings self)) \<subseteq> set (map fst (form_data self))"
  shows "(\<exists>t. process_question rt self drv q = (Inr (), processing_line q # t))
    \<or> (field_embeddings self = []
        \<and> process_question rt self drv q =
            (Inl (ValueError ''max() arg is an empty sequence''), [processing_line q]))
    \<or> (\<exists>f container t err.
          find_best_match self q 0.5 = Inr (Some f) \<and> f \<noteq> []
          \<and> fst (find_field_by_text rt drv q) = Inr (Some container)
          \<and> on_execute_script drv js_scroll container [] = Some err
          \<and> process_question rt self drv q = (Inl (selenium err), processing_line q # t))"
proof (cases "find_best_match self q 0.5")
  case (Inl e)
  from find_best_match_raises [OF Inl] Inl show ?thesis
    by (simp add: process_question_def processing_line_def io_simps)
next
  case (Inr best_match)
  show ?thesis
  proof (cases "best_match \<noteq> None \<and> best_match \<noteq> Some []")
    case False
    with Inr show ?thesis
      by (auto simp: process_question_def processing_line_def io_simps)
  next
    case True
    then obtain f where f: "best_match = Some f" "f \<noteq> []" by auto
    from Inr f have m: "find_best_match self q 0.5 = Inr (Some f)" by simp
    from find_best_match_key [OF m] keys have "f \<in> set (map fst (form_data self))" by blast
    from py_getitem_key [OF this] obtain v where v: "py_getitem rt (form_data self) f = Inr v"
      by blast
    obtain c t1 where c: "find_field_by_text rt drv q = (Inr c, t1)"
      using find_field_by_text_returns by blast
    show ?thesis
    proof (cases c)
      case None
      with m f v c show ?thesis
        by (simp add: process_question_def processing_line_def io_simps)
    next
      case (Some container)
      note found = Some
      let ?ty = "first_marker container markers"
      show ?thesis
      proof (cases "on_execute_script drv js_scroll container []")
        case (Some err)
        with m f v c found have "process_question rt self drv q =
            (Inl (selenium err), processing_line q # Print (''Matched with field: '' @ f) #
               t1 @ [Print (''Field type: '' @ ?ty)])"
          by (simp add: process_question_def processing_line_def
              get_field_type_first_marker execute_script_def io_simps)
        moreover from c found have "fst (find_field_by_text rt drv q) = Inr (Some container)"
          by simp
        ultimately show ?thesis using m f(2) Some by blast
      next
        case None
        obtain b t3 where fill:
          "(if ?ty = ''date'' then fill_date_field rt drv container v
            else if ?ty = ''radio'' then fill_radio_field rt self drv container v
            else if ?ty = ''dropdown'' then fill_dropdown_field rt self drv container v
            else fill_text_field rt drv container v) = (Inr b, t3)"
          using fill_by_type_returns by blast
        have "\<exists>t. process_question rt self drv q = (Inr (), processing_line q # t)"
          unfolding process_question_def
          using m f v c found None
          by (simp add: processing_line_def get_field_type_first_marker execute_script_def
              fill io_simps)
        then show ?thesis by simp
      qed
    qed
  qed
qed


lemmas page_simps =
  form_driver_def jammed_driver_def two_question_page_def name_label_def name_container_def
  span_of_class_def span_with_text_def quote_def xp_ancestor_def xp_text_def xp_input_def
  xp_textarea_def xp_radio_def xp_checkbox_def xp_date_def xp_listbox_def leaf_def

lemmas ada_simps =
  find_best_match_def similarities_of_def ada_def init_def create_field_embeddings_def
  length_model_def ada_profile_def py_max_def py_getitem_def

lemma questions_found:
  "get_form_questions plain_runtime form_driver = (Inr [''Full Name'', ''Birth Date''], [])"
  "get_form_questions plain_runtime jammed_driver = (Inr [''Full Name'', ''Birth Date''], [])"
  by (simp_all add: get_form_questions_def question_patterns_def page_simps strip_def
      is_ascii_def is_space_def io_simps selenium_simps)



lemma ada_matches:
  "find_best_match ada ''Full Name'' 0.5 = Inr (Some ''Full Name'')"
  "find_best_match ada ''Birth Date'' 0.5 = Inr (Some ''Birth Date'')"
  by (simp_all add: ada_simps)











lemma question_loop_step:
  assumes "fst (process_question rt self drv q) = Inr ()"
  shows "question_loop rt self drv (q # rest) =
     (fst (question_loop rt self drv rest),
      snd (process_question rt self drv q) @ snd (question_loop rt self drv rest))"
proof -
  from assms obtain t where "process_question rt self drv q = (Inr (), t)"
    by (cases "process_question rt self drv q") simp
  then show ?thesis
    by (cases "question_loop rt self drv rest") (simp add: seq_Inr)
qed

lemma question_loop_stops:
  assumes "fst (process_question rt self drv q) = Inl e"
  shows "question_loop rt self drv (q # rest) = (Inl e, snd (process_question rt self drv q))"
proof -
  from assms obtain t where "process_question rt self drv q = (Inl e, t)"
    by (cases "process_question rt self drv q") simp
  then show ?thesis by (simp add: seq_Inl)
qed



lemma question_loop_raises_from:
  assumes "fst (question_loop rt self drv qs) = Inl e"
  shows "\<exists>q \<in> set qs. fst (process_question rt self drv q) = Inl e"
  using assms
proof (induction qs)
  case Nil
  then show ?case by (simp add: ret_def)
next
  case (Cons q qs)
  show ?case
  proof (cases "fst (process_question rt self drv q)")
    case (Inl e')
    from question_loop_stops [OF Inl] Cons.prems Inl show ?thesis by (simp del: question_loop.simps)
  next
    case (Inr u)
    then have "fst (process_question rt self drv q) = Inr ()" by simp
    from question_loop_step [OF this] Cons show ?thesis by (simp del: question_loop.simps)
  qed
qed


lemma fill_form_loop_raises:
  assumes "get_form_questions rt drv = (Inr qs, t)"
    and "question_loop rt self drv qs = (Inl e, t')"
  shows "fill_form rt self drv =
     (Inr (), Print ''Waiting for form to load...'' # t @
        Print (newline @ ''Found '' @ str_nat (length qs) @ '' questions in the form'') # t' @
        [Print (''Error filling form: '' @ msg e)])"
  using assms by (simp add: fill_form_def io_simps)


lemma find_best_match_argmax:
  assumes "field_embeddings self \<noteq> []"
  shows "\<exists>b. b \<in> set (similarities_of self q)
           \<and> (\<forall>p \<in> set (similarities_of self q). snd p \<le> snd b)
           \<and> find_best_match self q t = Inr (if t \<le> snd b then Some (fst b) else None)"
proof -
  from assms have "map fst (similarities_of self q) \<noteq> []" by (simp only: similarities_keys) simp
  then have "similarities_of self q \<noteq> []" by auto
  from py_max_nonempty [OF this] obtain b where b: "py_max snd (similarities_of self q) = Inr b"
    by blast
  from py_max_Inr [OF b] b show ?thesis by (intro exI [of _ b]) (simp add: find_best_match_def)
qed

text \<open>
  Claim C1. With a profile that is not empty, \<open>find_best_match\<close> scores the question
  against every cached field name and returns a field name of greatest score when that
  score reaches the threshold, and \<open>None\<close> otherwise (lemma \<open>find_best_match_argmax\<close>).
  With the empty profile \<open>{}\<close> there is nothing to take the maximum of: \<open>max\<close> raises
  \<open>ValueError\<close>, \<open>find_best_match\<close> returns neither a field name nor \<open>None\<close>, and the
  fill pass ends at its first question.
\<close>

theorem find_best_match_empty_profile:
  "find_best_match (init length_model []) ''Full Name'' (1 / 2) =
     Inl (ValueError ''max() arg is an empty sequence'')
   \<and> fill_form plain_runtime (init length_model []) form_driver =
       (Inr (), [Print ''Waiting for form to load...'',
                 Print (newline @ ''Found 2 questions in the form''),
                 processing_line ''Full Name'',
                 Print ''Error filling form: max() arg is an empty sequence''])"
proof -
  have m: "find_best_match (init length_model []) q t =
      Inl (ValueError ''max() arg is an empty sequence'')" for q t
    by (rule find_best_match_empty) (simp add: init_def create_field_embeddings_def)
  have "process_question plain_runtime (init length_model []) form_driver ''Full Name'' =
      (Inl (ValueError ''max() arg is an empty sequence''), [processing_line ''Full Name''])"
    by (simp add: process_question_def m processing_line_def io_simps)
  then have "question_loop plain_runtime (init length_model []) form_driver
      [''Full Name'', ''Birth Date''] =
      (Inl (ValueError ''max() arg is an empty sequence''), [processing_line ''Full Name''])"
    by (simp add: seq_Inl)
  from fill_form_loop_raises [OF questions_found(1) this] m show ?thesis
    by (simp add: str_nat.simps digit_char_def)
qed

text \<open>
  Claim C10. On the object that \<open>__init__\<close> builds, the cached embeddings have the
  keys of the profile; every field name that \<open>find_best_match\<close> returns is one of them, so
  the lookup \<open>form_data[best_match]\<close> finds a value; no \<open>KeyError\<close> comes out of the
  processing of a question, nor out of the loop over the questions.
\<close>

theorem profile_lookup_never_fails:
  "map fst (field_embeddings (init mdl fd)) = map fst fd
   \<and> (\<forall>q t f. find_best_match (init mdl fd) q t = Inr (Some f) \<longrightarrow>
        f \<in> set (map fst fd) \<and> (\<exists>v. py_getitem rt (form_data (init mdl fd)) f = Inr v))
   \<and> (\<forall>q k. fst (process_question rt (init mdl fd) drv q) \<noteq> Inl (KeyError k))
   \<and> (\<forall>qs k. fst (question_loop rt (init mdl fd) drv qs) \<noteq> Inl (KeyError k))"
proof (intro conjI allI impI)
  show keys: "map fst (field_embeddings (init mdl fd)) = map fst fd" by (rule init_keys)
  have fd: "form_data (init mdl fd) = fd" by (simp add: init_def)
  from keys fd have sub: "set (map fst (field_embeddings (init mdl fd))) \<subseteq>
      set (map fst (form_data (init mdl fd)))" by simp
  {
    fix q t f
    assume "find_best_match (init mdl fd) q t = Inr (Some f)"
    from find_best_match_key [OF this] keys show in_profile: "f \<in> set (map fst fd)" by simp
    with fd py_getitem_key [of f fd rt]
    show "\<exists>v. py_getitem rt (form_data (init mdl fd)) f = Inr v" by simp
  }
  have one: "fst (process_question rt (init mdl fd) drv q) \<noteq> Inl (KeyError k)" for q k
    using process_question_cases [OF sub, of rt drv q] by (auto simp: selenium_def)
  show "fst (process_question rt (init mdl fd) drv q) \<noteq> Inl (KeyError k)" for q k
    by (rule one)
  show "fst (question_loop rt (init mdl fd) drv qs) \<noteq> Inl (KeyError k)" for qs k
  proof
    assume "fst (question_loop rt (init mdl fd) drv qs) = Inl (KeyError k)"
    from question_loop_raises_from [OF this] one show False by blast
  qed
qed

theorem profile_lookup_never_fails_witness:
  "find_best_match (init length_model ada_profile) ''Full Name'' (1 / 2) = Inr (Some ''Full Name'')
   \<and> ''Full Name'' \<in> set (map fst ada_profile)
   \<and> py_getitem plain_runtime (form_data (init length_model ada_profile)) ''Full Name'' =
       Inr ''Ada Lovelace''
   \<and> fst (process_question plain_runtime (init length_model ada_profile) jammed_driver ''Full Name'')
       \<noteq> Inl (KeyError ''Full Name'')"
proof -
  note c = profile_lookup_never_fails [where mdl = length_model and fd = ada_profile
      and rt = plain_runtime and drv = jammed_driver]
  have m: "find_best_match (init length_model ada_profile) ''Full Name'' (1 / 2) =
      Inr (Some ''Full Name'')"
    using ada_matches(1) by (simp add: ada_def)
  from c [THEN conjunct2, THEN conjunct1, rule_format, OF m]
  have k: "''Full Name'' \<in> set (map fst ada_profile)" by simp
  have v: "py_getitem plain_runtime (form_data (init length_model ada_profile)) ''Full Name'' =
      Inr ''Ada Lovelace''"
    by (simp add: py_getitem_def init_def ada_profile_def)
  note n = c [THEN conjunct2, THEN conjunct2, THEN conjunct1, rule_format,
      of "''Full Name''" "''Full Name''"]
  from m k v n show ?thesis by simp
qed

text \<open>The lookup can fail on an object that \<open>__init__\<close> did not build.\<close>

lemma lookup_fails_outside_profile:
  "process_question plain_runtime
     \<lparr> model = length_model, form_data = [], field_embeddings = [(''Full Name'', 9)] \<rparr>
     quiet_driver ''Full Name'' =
   (Inl (KeyError (quote @ ''Full Name'' @ quote)),
    [processing_line ''Full Name'', Print ''Matched with field: Full Name''])"
  by (simp add: process_question_def find_best_match_def similarities_of_def py_max_def
      length_model_def py_getitem_def plain_runtime_def processing_line_def io_simps)





end
